theory Spec2Isabelle
  imports Complex_Main "HOL-Library.Word" "HOL-Library.Signed_Division"
begin

unbundle bit_operations_syntax

section \<open>The carry system of the Hubs client (src/bit-systems/carry-system.ts)\<close>

text \<open>
  The module keeps its state in module-level variables and mutates the ECS world, the
  scene objects and a few browser and application singletons. The embedding passes all of
  this explicitly: \<open>sys\<close> holds the module-level variables, \<open>HubsWorld\<close> what the
  module reads or writes outside itself. JavaScript numbers are read as real numbers
  (entity ids as naturals, the snap face as an integer), so rounding, infinities and NaN
  of IEEE doubles are outside the model.
\<close>

subsection \<open>Enumerations and the state record\<close>

datatype CarryState = NONE | MENU | CARRYING | SNAPPING

text \<open>
  \<open>SnapFace\<close> is a numeric TypeScript enum; the code does arithmetic on it
  (\<open>(snapFace + 1) % 6\<close>) and compares it with the literal \<open>-1\<close>, so it is an integer here.
\<close>

type_synonym SnapFace = int

definition AUTO :: SnapFace where "AUTO = - 1"
definition LEFT :: SnapFace where "LEFT = 0"
definition FRONT :: SnapFace where "FRONT = 1"
definition RIGHT :: SnapFace where "RIGHT = 2"
definition TOP :: SnapFace where "TOP = 3"
definition BOTTOM :: SnapFace where "BOTTOM = 4"
definition BACK :: SnapFace where "BACK = 5"

type_synonym EntityID = nat

datatype Vector3 = Vector3 (vx: real) (vy: real) (vz: real)

datatype Quaternion = Quaternion (qx: real) (qy: real) (qz: real) (qw: real)

record CarryStateData =
  activeObject :: EntityID
  rotationOffset :: real
  nudgeOffset :: real
  snapFace :: SnapFace
  applyGravity :: bool
  menuPosX :: real
  menuPosY :: real
  center :: Vector3
  size_v :: Vector3

subsection \<open>Configuration constants\<close>

definition CARRY_HEIGHT :: real where "CARRY_HEIGHT = 0.6"
definition CARRY_DISTANCE :: real where "CARRY_DISTANCE = 0.5"
definition NUDGE_START_OFFSET :: real where "NUDGE_START_OFFSET = 0.001"

definition degToRad :: "real \<Rightarrow> real" where
  "degToRad degrees = degrees * (pi / 180)"

definition FLOOR_SNAP_ANGLE :: real where "FLOOR_SNAP_ANGLE = degToRad 45"
definition DEFAULT_FLOOR_FACE :: SnapFace where "DEFAULT_FLOOR_FACE = BOTTOM"
definition DEFAULT_WALL_FACE :: SnapFace where "DEFAULT_WALL_FACE = BACK"
definition DEFAULT_CEIL_FACE :: SnapFace where "DEFAULT_CEIL_FACE = TOP"

definition ROTATIONS_PER_SECOND :: real where "ROTATIONS_PER_SECOND = 4"
definition ROTATION_SPEED :: real where
  "ROTATION_SPEED = (pi * 2) / ROTATIONS_PER_SECOND / 1000"

definition MIN_SCALE :: Vector3 where "MIN_SCALE = Vector3 0.01 0.01 0.01"
definition SCALE_SPEED :: real where "SCALE_SPEED = 0.1"
definition NUDGE_SPEED :: real where "NUDGE_SPEED = 0.1"

definition COS_FLOOR_SNAP_ANGLE :: real where
  "COS_FLOOR_SNAP_ANGLE = cos FLOOR_SNAP_ANGLE"

definition ZERO :: Vector3 where "ZERO = Vector3 0 0 0"
definition X_AXIS :: Vector3 where "X_AXIS = Vector3 1 0 0"
definition Y_AXIS :: Vector3 where "Y_AXIS = Vector3 0 1 0"
definition Z_AXIS :: Vector3 where "Z_AXIS = Vector3 0 0 1"

subsection \<open>Vector arithmetic used by the module\<close>

text \<open>The componentwise methods of three.js's \<open>Vector3\<close> that the module calls.\<close>

definition v_add :: "Vector3 \<Rightarrow> Vector3 \<Rightarrow> Vector3" where
  "v_add a b = Vector3 (vx a + vx b) (vy a + vy b) (vz a + vz b)"

definition v_sub :: "Vector3 \<Rightarrow> Vector3 \<Rightarrow> Vector3" where
  "v_sub a b = Vector3 (vx a - vx b) (vy a - vy b) (vz a - vz b)"

definition v_multiply :: "Vector3 \<Rightarrow> Vector3 \<Rightarrow> Vector3" where
  "v_multiply a b = Vector3 (vx a * vx b) (vy a * vy b) (vz a * vz b)"

definition v_multiplyScalar :: "Vector3 \<Rightarrow> real \<Rightarrow> Vector3" where
  "v_multiplyScalar a k = Vector3 (vx a * k) (vy a * k) (vz a * k)"

definition v_addScalar :: "Vector3 \<Rightarrow> real \<Rightarrow> Vector3" where
  "v_addScalar a k = Vector3 (vx a + k) (vy a + k) (vz a + k)"

definition v_addScaledVector :: "Vector3 \<Rightarrow> Vector3 \<Rightarrow> real \<Rightarrow> Vector3" where
  "v_addScaledVector a d k = Vector3 (vx a + vx d * k) (vy a + vy d * k) (vz a + vz d * k)"

definition v_max :: "Vector3 \<Rightarrow> Vector3 \<Rightarrow> Vector3" where
  "v_max a b = Vector3 (max (vx a) (vx b)) (max (vy a) (vy b)) (max (vz a) (vz b))"

definition v_dot :: "Vector3 \<Rightarrow> Vector3 \<Rightarrow> real" where
  "v_dot a b = vx a * vx b + vy a * vy b + vz a * vz b"

subsection \<open>What lies outside the module\<close>

text \<open>
  The routines of three.js with internal case distinctions (quaternion construction and
  application, normalisation, projection, the normal matrix) are parameters of the model:
  every theorem below holds for whatever these functions compute. The same record carries
  the two configuration values the module imports: \<open>unlockPointerOnDrop\<close>, computed from
  the query string, and the flag bit \<open>MODIFY_GRAVITY_ON_RELEASE\<close> of the floaty-object
  system.
\<close>

record Deps =
  setFromAxisAngle :: "Vector3 \<Rightarrow> real \<Rightarrow> Quaternion"
  multiplyQ :: "Quaternion \<Rightarrow> Quaternion \<Rightarrow> Quaternion"
  applyQuaternion :: "Vector3 \<Rightarrow> Quaternion \<Rightarrow> Vector3"
  setFromUnitVectors :: "Vector3 \<Rightarrow> Vector3 \<Rightarrow> Quaternion"
  lookAtRotation :: "Vector3 \<Rightarrow> Vector3 \<Rightarrow> Vector3 \<Rightarrow> Quaternion"
  applyNormalMatrix :: "Vector3 \<Rightarrow> real list \<Rightarrow> Vector3"
  projectOnPlane :: "Vector3 \<Rightarrow> Vector3 \<Rightarrow> Vector3"
  normalize :: "Vector3 \<Rightarrow> Vector3"
  unlockPointerOnDrop :: bool
  MODIFY_GRAVITY_ON_RELEASE :: "8 word"

datatype Component =
  Carryable | FloatyObject | Held | HeldHandLeft | HeldHandRight | HeldRemoteLeft
  | HeldRemoteRight | HoveredRemoteRight | Owned | Rigidbody | SceneRoot

datatype BodyType = Dynamic | Kinematic

text \<open>
  The collision layers are named constants of \<open>constants.ts\<close>; a mask is kept as the set
  of the names that the code combines with bitwise or.
\<close>

datatype COLLISION_LAYERS = DEFAULT_INTERACTABLE | HANDS | MEDIA_FRAMES

record BodyOptions =
  bodyType :: BodyType
  gravity :: Vector3
  angularDamping :: "real option"
  linearDamping :: "real option"
  linearSleepingThreshold :: "real option"
  angularSleepingThreshold :: "real option"
  collisionFilterMask :: "COLLISION_LAYERS set option"

text \<open>
  A scene object, with the transform fields the module writes.
  Modelled from the spec: \<open>computeLocalBoundingBox\<close> (utils/auto-box-collider) is not among
  the sources; \<open>localBoundingBox\<close> is the centre and the size of the local-space bounding
  box it computes for the object.
\<close>

record Object3D =
  position :: Vector3
  quaternion :: Quaternion
  scale :: Vector3
  localBoundingBox :: "Vector3 \<times> Vector3"

record Mesh =
  meshId :: nat
  geometry :: nat
  matrixWorld :: "real list"

record Intersection =
  point :: Vector3
  object :: Mesh
  faceNormal :: Vector3

text \<open>
  The camera is what the raycaster makes of it: the hits of the ray through the view
  centre on the scene object and its descendants, nearest first.
\<close>

type_synonym Camera = "Object3D \<Rightarrow> Intersection list"

record CharacterControllerSystem =
  avatarRigWorldPosition :: Vector3
  avatarPOVWorldDirection :: Vector3

text \<open>The values \<open>userinput.get\<close> returns for the paths the module reads this frame.\<close>

record UserInputSystem =
  carry_toggle_snap :: bool
  carry_drop :: bool
  carry_rotate_ccw :: bool
  carry_rotate_cw :: bool
  carry_change_snap_face :: bool
  carry_snap_nudge :: "real option"
  carry_snap_scale :: "real option"
  carry_toggle_gravity :: bool
  carry_carry :: bool
  cursor_right_menu :: bool
  mouse_pos :: "real \<times> real"

datatype PointerLockCall = RequestPointerLock | ExitPointerLock

text \<open>
  The world and the singletons behind \<open>APP\<close>, \<open>AFRAME\<close>, \<open>document\<close> and \<open>window\<close>.
  Calls into the physics system, the pointer-lock API and the event bus are recorded in
  the order they are issued.
\<close>

record HubsWorld =
  entities :: "EntityID list"
  components :: "EntityID \<Rightarrow> Component set"
  eid2obj :: "EntityID \<rightharpoonup> Object3D"
  time_delta :: real
  canTakeOwnership :: "EntityID \<Rightarrow> bool"
  bodyId :: "EntityID \<Rightarrow> nat"
  floatyFlags :: "EntityID \<Rightarrow> 8 word"
  physicsCalls :: "(nat \<times> BodyOptions) list"
  pointerLockCalls :: "PointerLockCall list"
  selection :: "EntityID set"
  visibleEdgeColor :: nat
  uiEvents :: "(CarryState \<times> CarryStateData) list"

text \<open>The module-level variables; the arrow helper and the grid mesh by the fields written.\<close>

record sys =
  carryState :: CarryState
  carryStateData :: CarryStateData
  prevDot :: real
  lastIntersectedObj :: "nat option"
  uiNeedsUpdate :: bool
  exitedPointerlock :: bool
  arrowHelper_visible :: bool
  arrowHelper_parent :: bool
  arrowHelper_position :: Vector3
  arrowHelper_direction :: Vector3
  arrowHelper_length :: real
  gridMesh_visible :: bool
  gridMesh_geometry :: "nat option"
  gridMesh_matrixWorld :: "real list"
  gridMesh_objectPos :: Vector3
  gridMesh_objectScale :: real

subsection \<open>Collaborator calls\<close>

text \<open>
  A property read on \<open>undefined\<close> raises a \<open>TypeError\<close> in JavaScript. The module
  asserts with \<open>!\<close> that its lookups in \<open>eid2obj\<close> succeed; where one does not, the
  model stops at the statement that raises and returns the state as mutated so far.
  The calls into the entity-component store are an existence test, a presence test, and
  the removal of a component. The removal changes nothing where the component is absent,
  and raises an error when the entity is not in the world: \<open>None\<close>.
\<close>

datatype error = TypeError | EntityMissing

datatype outcome =
  Done (sys_of: sys) (world_of: HubsWorld)
  | Thrown (thrown: error) (sys_of: sys) (world_of: HubsWorld)

definition entityExists :: "HubsWorld \<Rightarrow> EntityID \<Rightarrow> bool" where
  "entityExists world eid = (eid \<in> set (entities world))"

definition hasComponent :: "HubsWorld \<Rightarrow> Component \<Rightarrow> EntityID \<Rightarrow> bool" where
  "hasComponent world c eid = (c \<in> components world eid)"

definition removeComponent :: "HubsWorld \<Rightarrow> Component \<Rightarrow> EntityID \<Rightarrow> HubsWorld option" where
  "removeComponent world c eid =
     (if entityExists world eid
      then Some (world\<lparr>components := (components world)(eid := components world eid - {c})\<rparr>)
      else None)"

text \<open>
  Modelled from the spec: \<open>anyEntityWith\<close> (utils/bit-utils) is not among the sources. It
  answers whether an entity with the component exists and names one; the model names the
  first in the world's entity order, as it does for the first element of a query.
\<close>

definition anyEntityWith :: "HubsWorld \<Rightarrow> Component \<Rightarrow> EntityID option" where
  "anyEntityWith world c = find (hasComponent world c) (entities world)"

definition queryHoveredRemoteRight :: "HubsWorld \<Rightarrow> EntityID list" where
  "queryHoveredRemoteRight world =
     filter (\<lambda>eid. hasComponent world Carryable eid \<and> hasComponent world HoveredRemoteRight eid)
       (entities world)"

text \<open>JavaScript truthiness of an entity id that may be missing: \<open>0\<close> counts as absent.\<close>

definition truthy :: "EntityID option \<Rightarrow> EntityID option" where
  "truthy e = (case e of None \<Rightarrow> None | Some eid \<Rightarrow> if eid = 0 then None else Some eid)"

text \<open>
  Modelled from the spec: \<open>takeOwnership\<close> (utils/take-ownership) is not among the sources.
  It claims manipulation authority over the entity and is a silent no-op when the
  authority cannot be claimed.
\<close>

definition takeOwnership :: "HubsWorld \<Rightarrow> EntityID \<Rightarrow> HubsWorld" where
  "takeOwnership world eid =
     (if canTakeOwnership world eid
      then world\<lparr>components := (components world)(eid := insert Owned (components world eid))\<rparr>
      else world)"

definition updateBodyOptions :: "HubsWorld \<Rightarrow> nat \<Rightarrow> BodyOptions \<Rightarrow> HubsWorld" where
  "updateBodyOptions world body opts = world\<lparr>physicsCalls := physicsCalls world @ [(body, opts)]\<rparr>"

definition requestPointerLock :: "HubsWorld \<Rightarrow> HubsWorld" where
  "requestPointerLock world = world\<lparr>pointerLockCalls := pointerLockCalls world @ [RequestPointerLock]\<rparr>"

definition exitPointerLock :: "HubsWorld \<Rightarrow> HubsWorld" where
  "exitPointerLock world = world\<lparr>pointerLockCalls := pointerLockCalls world @ [ExitPointerLock]\<rparr>"

text \<open>
  The selection holds meshes; the model records the entity whose object was traversed.
  \<open>None\<close> is the \<open>TypeError\<close> of calling \<open>traverse\<close> on a missing object.
\<close>

definition addEntityToSelection :: "HubsWorld \<Rightarrow> EntityID \<Rightarrow> HubsWorld option" where
  "addEntityToSelection world eid =
     (case eid2obj world eid of
        None \<Rightarrow> None
      | Some obj \<Rightarrow> Some (world\<lparr>selection := insert eid (selection world)\<rparr>))"

subsection \<open>Menu, carry and drop\<close>

definition updateUI :: "HubsWorld \<Rightarrow> sys \<Rightarrow> HubsWorld" where
  "updateUI world s = world\<lparr>uiEvents := uiEvents world @ [(carryState s, carryStateData s)]\<rparr>"

definition showObjectMenu :: "EntityID \<Rightarrow> real \<Rightarrow> real \<Rightarrow> sys \<Rightarrow> sys" where
  "showObjectMenu eid mx my s =
     s\<lparr>carryState := MENU,
       carryStateData := (carryStateData s)\<lparr>activeObject := eid, menuPosX := mx, menuPosY := my\<rparr>,
       uiNeedsUpdate := True\<rparr>"

definition clearObjectMenu :: "sys \<Rightarrow> sys" where
  "clearObjectMenu s =
     s\<lparr>carryState := NONE,
       carryStateData := (carryStateData s)\<lparr>activeObject := 0\<rparr>,
       uiNeedsUpdate := True\<rparr>"

definition isObjectMenuShowing :: "sys \<Rightarrow> bool" where
  "isObjectMenuShowing s = (carryState s = MENU)"

definition carryObject :: "Deps \<Rightarrow> EntityID \<Rightarrow> sys \<Rightarrow> HubsWorld \<Rightarrow> outcome" where
  "carryObject D eid s world =
     (let s1 = clearObjectMenu s;
          s2 = s1\<lparr>carryState := CARRYING,
                 carryStateData := (carryStateData s1)\<lparr>activeObject := eid, applyGravity := True\<rparr>\<rparr>;
          w1 = takeOwnership world (activeObject (carryStateData s2))
      in case removeComponent w1 HeldRemoteRight eid of
           None \<Rightarrow> Thrown EntityMissing s2 w1
         | Some w2 \<Rightarrow>
      (case removeComponent w2 HeldRemoteLeft eid of
           None \<Rightarrow> Thrown EntityMissing s2 w2
         | Some w3 \<Rightarrow>
      (case removeComponent w3 HeldRemoteRight eid of
           None \<Rightarrow> Thrown EntityMissing s2 w3
         | Some w4 \<Rightarrow>
      (case removeComponent w4 HeldHandLeft eid of
           None \<Rightarrow> Thrown EntityMissing s2 w4
         | Some w5 \<Rightarrow>
      (case removeComponent w5 Held eid of
           None \<Rightarrow> Thrown EntityMissing s2 w5
         | Some w6 \<Rightarrow>
             (let w7 = requestPointerLock w6;
                  w8 = updateBodyOptions w7 (bodyId w7 eid)
                         \<lparr>bodyType = Kinematic, gravity = Vector3 0 0 0,
                          angularDamping = None, linearDamping = None,
                          linearSleepingThreshold = None, angularSleepingThreshold = None,
                          collisionFilterMask = None\<rparr>
              in case eid2obj w8 eid of
                   None \<Rightarrow> Thrown TypeError s2 w8
                 | Some obj \<Rightarrow>
                     Done (s2\<lparr>carryStateData := (carryStateData s2)
                                 \<lparr>center := fst (localBoundingBox obj),
                                  size_v := snd (localBoundingBox obj)\<rparr>,
                              uiNeedsUpdate := True\<rparr>) w8))))))"

definition dropObject :: "Deps \<Rightarrow> bool \<Rightarrow> sys \<Rightarrow> HubsWorld \<Rightarrow> sys \<times> HubsWorld" where
  "dropObject D withGravity s world =
     (let w1 = (if unlockPointerOnDrop D then exitPointerLock world else world);
          active = activeObject (carryStateData s);
          body = bodyId w1 active;
          w2 = (if withGravity
                then updateBodyOptions w1 body
                       \<lparr>bodyType = Dynamic, gravity = Vector3 0 (- 9.8) 0,
                        angularDamping = Some 0.01, linearDamping = Some 0.01,
                        linearSleepingThreshold = Some 1.6, angularSleepingThreshold = Some 2.5,
                        collisionFilterMask = Some {DEFAULT_INTERACTABLE}\<rparr>
                else updateBodyOptions w1 body
                       \<lparr>bodyType = Kinematic, gravity = Vector3 0 0 0,
                        angularDamping = Some 0.89, linearDamping = Some 0.95,
                        linearSleepingThreshold = Some 0.1, angularSleepingThreshold = Some 0.1,
                        collisionFilterMask = Some {HANDS, MEDIA_FRAMES}\<rparr>);
          w3 = (if hasComponent w2 FloatyObject active
                then w2\<lparr>floatyFlags := (floatyFlags w2)
                          (active := floatyFlags w2 active AND
                             (if withGravity then NOT (MODIFY_GRAVITY_ON_RELEASE D)
                              else MODIFY_GRAVITY_ON_RELEASE D))\<rparr>
                else w2)
      in (s\<lparr>carryState := NONE,
            carryStateData := (carryStateData s)\<lparr>activeObject := 0\<rparr>,
            arrowHelper_visible := False,
            gridMesh_visible := False,
            uiNeedsUpdate := True\<rparr>, w3))"

definition isCarryingObject :: "sys \<Rightarrow> bool" where
  "isCarryingObject s = (carryState s = CARRYING)"

definition isSnappingObject :: "sys \<Rightarrow> bool" where
  "isSnappingObject s = (carryState s = SNAPPING)"

text \<open>The \<open>pointerlockchange\<close> listener; the argument says whether a pointer-lock element is set.\<close>

definition onPointerlockchange :: "bool \<Rightarrow> sys \<Rightarrow> sys" where
  "onPointerlockchange pointerLockElement s = s\<lparr>exitedPointerlock := \<not> pointerLockElement\<rparr>"

subsection \<open>The snap orientation tables\<close>

datatype AxisName = Axis_x | Axis_y | Axis_z

definition component :: "Vector3 \<Rightarrow> AxisName \<Rightarrow> real" where
  "component v a = (case a of Axis_x \<Rightarrow> vx v | Axis_y \<Rightarrow> vy v | Axis_z \<Rightarrow> vz v)"

text \<open>Indexing a table with a face it has no entry for yields \<open>undefined\<close>: here \<open>None\<close>.\<close>

definition QUAT_FOR_FACE :: "Deps \<Rightarrow> SnapFace \<Rightarrow> Quaternion option" where
  "QUAT_FOR_FACE D = map_of
     [(AUTO, setFromAxisAngle D X_AXIS (pi / 2)),
      (BOTTOM, setFromAxisAngle D X_AXIS (pi / 2)),
      (TOP, setFromAxisAngle D X_AXIS (- pi / 2)),
      (BACK, Quaternion 0 0 0 1),
      (FRONT, setFromAxisAngle D Y_AXIS pi),
      (LEFT, setFromAxisAngle D Y_AXIS (pi / 2)),
      (RIGHT, setFromAxisAngle D Y_AXIS (- pi / 2))]"

definition ROT_AXIS_FOR_FACE :: "SnapFace \<Rightarrow> Vector3 option" where
  "ROT_AXIS_FOR_FACE = map_of
     [(AUTO, Y_AXIS), (BOTTOM, Y_AXIS), (TOP, Y_AXIS), (BACK, Z_AXIS), (FRONT, Z_AXIS),
      (LEFT, X_AXIS), (RIGHT, X_AXIS)]"

definition AXIS_NAME_FOR_FACE :: "SnapFace \<Rightarrow> AxisName option" where
  "AXIS_NAME_FOR_FACE = map_of
     [(AUTO, Axis_y), (BOTTOM, Axis_y), (TOP, Axis_y), (BACK, Axis_z), (FRONT, Axis_z),
      (LEFT, Axis_x), (RIGHT, Axis_x)]"

subsection \<open>handleSnapping\<close>

text \<open>JavaScript's \<open>%\<close> takes the sign of the dividend: on integers it is \<open>smod\<close>.\<close>

definition rotateStep :: "UserInputSystem \<Rightarrow> HubsWorld \<Rightarrow> sys \<Rightarrow> sys" where
  "rotateStep userinput world s =
     (if carry_rotate_ccw userinput
      then s\<lparr>carryStateData := (carryStateData s)
               \<lparr>rotationOffset := rotationOffset (carryStateData s) - ROTATION_SPEED * time_delta world\<rparr>\<rparr>
      else if carry_rotate_cw userinput
      then s\<lparr>carryStateData := (carryStateData s)
               \<lparr>rotationOffset := rotationOffset (carryStateData s) + ROTATION_SPEED * time_delta world\<rparr>\<rparr>
      else s)"

definition changeSnapFace :: "sys \<Rightarrow> sys" where
  "changeSnapFace s =
     s\<lparr>carryStateData := (carryStateData s)\<lparr>snapFace := (snapFace (carryStateData s) + 1) smod 6\<rparr>,
       uiNeedsUpdate := True\<rparr>"

definition nudgeStep :: "UserInputSystem \<Rightarrow> HubsWorld \<Rightarrow> sys \<Rightarrow> sys" where
  "nudgeStep userinput world s =
     (case carry_snap_nudge userinput of
        None \<Rightarrow> s
      | Some nudgeDelta \<Rightarrow>
          s\<lparr>carryStateData := (carryStateData s)
              \<lparr>nudgeOffset := nudgeOffset (carryStateData s) + nudgeDelta * time_delta world * NUDGE_SPEED\<rparr>\<rparr>)"

definition scaleStep :: "UserInputSystem \<Rightarrow> HubsWorld \<Rightarrow> Object3D \<Rightarrow> Object3D" where
  "scaleStep userinput world obj =
     (case carry_snap_scale userinput of
        None \<Rightarrow> obj
      | Some scaleDelta \<Rightarrow>
          obj\<lparr>scale := v_addScalar (scale obj) (scaleDelta * time_delta world * SCALE_SPEED)\<rparr>)"

definition hitNormal :: "Deps \<Rightarrow> Intersection \<Rightarrow> Vector3" where
  "hitNormal D intersection =
     applyNormalMatrix D (faceNormal intersection) (matrixWorld (object intersection))"

text \<open>
  Lines 351 to 375: attaching the helpers to the scene on first use, re-anchoring the grid
  when the surface changes, the discontinuity reset, and the arrow.
\<close>

definition surfaceStep :: "Deps \<Rightarrow> Intersection \<Rightarrow> sys \<Rightarrow> sys" where
  "surfaceStep D intersection s =
     (let dir = hitNormal D intersection;
          target = point intersection;
          s1 = (if \<not> arrowHelper_parent s then s\<lparr>arrowHelper_parent := True\<rparr> else s);
          s2 = (if lastIntersectedObj s1 \<noteq> Some (meshId (object intersection))
                then s1\<lparr>lastIntersectedObj := Some (meshId (object intersection)),
                        gridMesh_geometry := Some (geometry (object intersection)),
                        gridMesh_matrixWorld := matrixWorld (object intersection)\<rparr>
                else s1);
          dot = v_dot dir Y_AXIS;
          s3 = (if \<bar>dot - prevDot s2\<bar> > 0.2
                then s2\<lparr>carryStateData := (carryStateData s2)
                          \<lparr>rotationOffset := 0, nudgeOffset := NUDGE_START_OFFSET\<rparr>\<rparr>
                else s2);
          s4 = s3\<lparr>prevDot := dot\<rparr>
      in s4\<lparr>arrowHelper_position := target,
            arrowHelper_direction := dir,
            arrowHelper_length := nudgeOffset (carryStateData s4),
            arrowHelper_visible := (nudgeOffset (carryStateData s4) \<noteq> 0)\<rparr>)"

definition effectiveSnapFace :: "CarryStateData \<Rightarrow> real \<Rightarrow> SnapFace" where
  "effectiveSnapFace d dot =
     (if snapFace d \<noteq> - 1 then snapFace d
      else if \<bar>dot\<bar> \<ge> COS_FLOOR_SNAP_ANGLE
      then (if dot > 0 then DEFAULT_FLOOR_FACE else DEFAULT_CEIL_FACE)
      else DEFAULT_WALL_FACE)"

definition offsetDistance :: "CarryStateData \<Rightarrow> real \<Rightarrow> real \<Rightarrow> real" where
  "offsetDistance d sizeOnAxis scaleOnAxis =
     (if nudgeOffset d < 0
      then (sizeOnAxis / 2 + nudgeOffset d) * scaleOnAxis
      else (sizeOnAxis / 2) * scaleOnAxis + nudgeOffset d)"

text \<open>
  Lines 395 to 409. A face without table entries makes \<open>multiply\<close> read a property of
  \<open>undefined\<close>: \<open>None\<close>.
\<close>

definition placeObject ::
  "Deps \<Rightarrow> CarryStateData \<Rightarrow> SnapFace \<Rightarrow> Vector3 \<Rightarrow> Vector3 \<Rightarrow> Object3D \<Rightarrow> Object3D option" where
  "placeObject D d face dir target obj =
     (case (ROT_AXIS_FOR_FACE face, AXIS_NAME_FOR_FACE face, QUAT_FOR_FACE D face) of
        (Some rotationAxis, Some axisName, Some faceQuat) \<Rightarrow>
          (let sizeOnAxis = component (size_v d) axisName;
               scaleOnAxis = component (scale obj) axisName;
               q1 = multiplyQ D (quaternion obj) faceQuat;
               q2 = multiplyQ D q1 (setFromAxisAngle D rotationAxis (- rotationOffset d));
               t1 = v_sub target (applyQuaternion D (v_multiply (center d) (scale obj)) q2);
               t2 = v_addScaledVector t1 dir (offsetDistance d sizeOnAxis scaleOnAxis)
           in Some (obj\<lparr>quaternion := q2, position := t2\<rparr>))
      | _ \<Rightarrow> None)"

text \<open>Lines 332 to 411: what a snapping tick does once the ray has hit a surface.\<close>

definition snapOnHit ::
  "Deps \<Rightarrow> HubsWorld \<Rightarrow> UserInputSystem \<Rightarrow> Intersection \<Rightarrow> sys \<Rightarrow> outcome" where
  "snapOnHit D world userinput intersection s =
     (let active = activeObject (carryStateData s);
          s1 = nudgeStep userinput world s;
          s2 = surfaceStep D intersection s1;
          dir = hitNormal D intersection
      in case eid2obj world active of
           None \<Rightarrow>
             (case carry_snap_scale userinput of
                Some scaleDelta \<Rightarrow> Thrown TypeError s1 world
              | None \<Rightarrow> Thrown TypeError s2 world)
         | Some obj \<Rightarrow>
             (let obj1 = scaleStep userinput world obj;
                  obj2 = obj1\<lparr>scale := v_max (scale obj1) MIN_SCALE\<rparr>;
                  d = carryStateData s2;
                  s3 = s2\<lparr>gridMesh_objectPos := point intersection,
                          gridMesh_objectScale :=
                            max (max (vx (size_v d)) (vy (size_v d))) (vz (size_v d)) * vx (scale obj2)\<rparr>;
                  obj3 = obj2\<lparr>quaternion := lookAtRotation D dir ZERO Y_AXIS\<rparr>;
                  face = effectiveSnapFace d (v_dot dir Y_AXIS)
              in case placeObject D d face dir (point intersection) obj3 of
                   None \<Rightarrow> Thrown TypeError s3 (world\<lparr>eid2obj := (eid2obj world)(active \<mapsto> obj3)\<rparr>)
                 | Some obj4 \<Rightarrow> Done s3 (world\<lparr>eid2obj := (eid2obj world)(active \<mapsto> obj4)\<rparr>)))"

definition handleSnapping ::
  "Deps \<Rightarrow> HubsWorld \<Rightarrow> Camera \<Rightarrow> UserInputSystem \<Rightarrow> sys \<Rightarrow> outcome" where
  "handleSnapping D world camera userinput s =
     (if carry_toggle_snap userinput
      then Done (s\<lparr>carryState := CARRYING, gridMesh_visible := False, uiNeedsUpdate := True\<rparr>) world
      else if carry_drop userinput \<or> exitedPointerlock s
      then (case dropObject D False s world of (s', world') \<Rightarrow> Done s' world')
      else
        (let s1 = rotateStep userinput world s;
             s2 = (if carry_change_snap_face userinput then changeSnapFace s1 else s1)
         in case anyEntityWith world SceneRoot of
              None \<Rightarrow> Thrown TypeError s2 world
            | Some currentScene \<Rightarrow>
                (case eid2obj world currentScene of
                   None \<Rightarrow> Thrown TypeError s2 world
                 | Some sceneObj \<Rightarrow>
                     (case camera sceneObj of
                        [] \<Rightarrow> Done s2 world
                      | intersection # others \<Rightarrow> snapOnHit D world userinput intersection s2))))"

subsection \<open>carrySystem\<close>

text \<open>Lines 425 to 436: the check that runs first in every frame.\<close>

definition watchdogFires :: "HubsWorld \<Rightarrow> sys \<Rightarrow> bool" where
  "watchdogFires world s =
     (let entityWasRemoved = \<not> entityExists world (activeObject (carryStateData s));
          lostOwnership = \<not> hasComponent world Owned (activeObject (carryStateData s))
      in entityWasRemoved \<or>
         ((carryState s = CARRYING \<or> carryState s = SNAPPING) \<and> lostOwnership))"

definition watchdog :: "HubsWorld \<Rightarrow> sys \<Rightarrow> sys" where
  "watchdog world s =
     (if watchdogFires world s
      then s\<lparr>carryState := NONE,
             carryStateData := (carryStateData s)\<lparr>activeObject := 0\<rparr>,
             arrowHelper_visible := False,
             gridMesh_visible := False,
             uiNeedsUpdate := True\<rparr>
      else s)"

text \<open>The assignments made on entering SNAPPING (lines 462 to 469 and 482 to 489).\<close>

definition enterSnapping :: "sys \<Rightarrow> sys" where
  "enterSnapping s =
     s\<lparr>carryState := SNAPPING,
       carryStateData := (carryStateData s)
         \<lparr>rotationOffset := 0, nudgeOffset := NUDGE_START_OFFSET, snapFace := - 1\<rparr>,
       gridMesh_visible := True,
       lastIntersectedObj := None,
       uiNeedsUpdate := True\<rparr>"

text \<open>Lines 438 to 470.\<close>

definition carryingTick ::
  "Deps \<Rightarrow> HubsWorld \<Rightarrow> UserInputSystem \<Rightarrow> CharacterControllerSystem \<Rightarrow> sys \<Rightarrow> outcome" where
  "carryingTick D world userinput characterController s =
     (let active = activeObject (carryStateData s)
      in case eid2obj world active of
           None \<Rightarrow> Thrown TypeError s world
         | Some obj \<Rightarrow>
             (let tmpWorldPos = avatarRigWorldPosition characterController;
                  dir1 = normalize D (projectOnPlane D (avatarPOVWorldDirection characterController) Y_AXIS);
                  q = setFromUnitVectors D Z_AXIS dir1;
                  dir2 = v_multiplyScalar dir1 (- CARRY_DISTANCE);
                  dir3 = Vector3 (vx dir2) CARRY_HEIGHT (vz dir2);
                  obj' = obj\<lparr>quaternion := q, position := v_add tmpWorldPos dir3\<rparr>;
                  w1 = world\<lparr>eid2obj := (eid2obj world)(active \<mapsto> obj')\<rparr>;
                  s1 = (if carry_toggle_gravity userinput
                        then s\<lparr>carryStateData := (carryStateData s)
                                 \<lparr>applyGravity := \<not> applyGravity (carryStateData s)\<rparr>,
                               uiNeedsUpdate := True\<rparr>
                        else s);
                  (s2, w2) = (if carry_drop userinput \<or> exitedPointerlock s1
                              then dropObject D (applyGravity (carryStateData s1)) s1 w1
                              else (s1, w1));
                  s3 = (if carry_toggle_snap userinput then enterSnapping s2 else s2)
              in Done s3 w2))"

text \<open>Lines 471 to 474.\<close>

definition snappingTick ::
  "Deps \<Rightarrow> HubsWorld \<Rightarrow> UserInputSystem \<Rightarrow> Camera \<Rightarrow> sys \<Rightarrow> outcome" where
  "snappingTick D world userinput camera s =
     (let w1 = world\<lparr>visibleEdgeColor := 16777215\<rparr>
      in if nudgeOffset (carryStateData s) < 0
         then (case addEntityToSelection w1 (activeObject (carryStateData s)) of
                 None \<Rightarrow> Thrown TypeError s w1
               | Some w2 \<Rightarrow> handleSnapping D w2 camera userinput s)
         else handleSnapping D w1 camera userinput s)"

text \<open>Lines 490 to 502: the idle branch when the snap fast path is not taken.\<close>

definition idleHover ::
  "Deps \<Rightarrow> HubsWorld \<Rightarrow> UserInputSystem \<Rightarrow> EntityID option \<Rightarrow> sys \<Rightarrow> outcome" where
  "idleHover D world userinput hovered s =
     (if activeObject (carryStateData s) \<noteq> 0
      then (case addEntityToSelection world (activeObject (carryStateData s)) of
              None \<Rightarrow> Thrown TypeError s world
            | Some w1 \<Rightarrow> Done s w1)
      else
        (case truthy hovered of
           None \<Rightarrow> Done s world
         | Some h \<Rightarrow>
             (case addEntityToSelection world h of
                None \<Rightarrow> Thrown TypeError s world
              | Some w1 \<Rightarrow>
                  if carry_carry userinput then carryObject D h s w1
                  else if cursor_right_menu userinput
                  then Done (showObjectMenu h (fst (mouse_pos userinput)) (snd (mouse_pos userinput)) s)
                         (exitPointerLock w1)
                  else Done s w1)))"

text \<open>Lines 475 to 503; \<open>575473\<close> is \<open>0x08c7f1\<close>.\<close>

definition idleTick :: "Deps \<Rightarrow> HubsWorld \<Rightarrow> UserInputSystem \<Rightarrow> sys \<Rightarrow> outcome" where
  "idleTick D world userinput s =
     (let w1 = world\<lparr>visibleEdgeColor := 575473\<rparr>;
          hovered = (case queryHoveredRemoteRight w1 of [] \<Rightarrow> None | eid # others \<Rightarrow> Some eid);
          heldRightRemote = anyEntityWith w1 HeldRemoteRight
      in case truthy heldRightRemote of
           None \<Rightarrow> idleHover D w1 userinput hovered s
         | Some held \<Rightarrow>
             if carry_toggle_snap userinput
             then (case carryObject D held s w1 of
                     Thrown e s' w' \<Rightarrow> Thrown e s' w'
                   | Done s' w' \<Rightarrow> Done (enterSnapping s') w')
             else idleHover D w1 userinput hovered s)"

text \<open>Lines 504 to 508, which an exception skips.\<close>

definition finishTick :: "outcome \<Rightarrow> outcome" where
  "finishTick r =
     (case r of
        Thrown e s world \<Rightarrow> Thrown e s world
      | Done s world \<Rightarrow>
          (if uiNeedsUpdate s
           then Done (s\<lparr>uiNeedsUpdate := False, exitedPointerlock := False\<rparr>) (updateUI world s)
           else Done (s\<lparr>exitedPointerlock := False\<rparr>) world))"

definition carrySystem ::
  "Deps \<Rightarrow> HubsWorld \<Rightarrow> UserInputSystem \<Rightarrow> CharacterControllerSystem \<Rightarrow> Camera \<Rightarrow> sys \<Rightarrow> outcome" where
  "carrySystem D world userinput characterController camera s =
     (let w0 = world\<lparr>selection := {}\<rparr>;
          s0 = watchdog w0 s
      in finishTick
           (if carryState s0 = CARRYING then carryingTick D w0 userinput characterController s0
            else if carryState s0 = SNAPPING then snappingTick D w0 userinput camera s0
            else idleTick D w0 userinput s0))"

subsection \<open>Initial state and reachable states\<close>

definition initial_sys :: sys where
  "initial_sys =
     \<lparr>carryState = NONE,
      carryStateData =
        \<lparr>activeObject = 0, rotationOffset = 0, nudgeOffset = NUDGE_START_OFFSET,
         snapFace = AUTO, applyGravity = True, menuPosX = 0, menuPosY = 0,
         center = Vector3 0 0 0, size_v = Vector3 0 0 0\<rparr>,
      prevDot = 0,
      lastIntersectedObj = None,
      uiNeedsUpdate = False,
      exitedPointerlock = False,
      arrowHelper_visible = True,
      arrowHelper_parent = False,
      arrowHelper_position = Vector3 0 0 0,
      arrowHelper_direction = Vector3 0 0 1,
      arrowHelper_length = 1,
      gridMesh_visible = False,
      gridMesh_geometry = None,
      gridMesh_matrixWorld = [1, 0, 0, 0, 0, 1, 0, 0, 0, 0, 1, 0, 0, 0, 0, 1],
      gridMesh_objectPos = Vector3 0 0 0,
      gridMesh_objectScale = 1\<rparr>"

text \<open>
  The states the module-level variables can take: the initial ones, and those left by a
  frame, by the exported \<open>carryObject\<close> and \<open>clearObjectMenu\<close>, and by the pointer-lock
  listener, each on any world and any input. A call that raises leaves the variables as
  they were when it raised, and that state is reachable too.
\<close>

inductive reachable :: "sys \<Rightarrow> bool" where
  init: "reachable initial_sys"
| frame: "reachable s \<Longrightarrow>
    reachable (sys_of (carrySystem D world userinput characterController camera s))"
| carry: "reachable s \<Longrightarrow> reachable (sys_of (carryObject D eid s world))"
| clear: "reachable s \<Longrightarrow> reachable (clearObjectMenu s)"
| pointerlock: "reachable s \<Longrightarrow> reachable (onPointerlockchange b s)"

subsection \<open>Conditions on a frame\<close>

text \<open>
  The inputs on which the idle branch (lines 475 to 503) begins a new interaction once the
  active object is \<open>0\<close>: the snap fast path on an entity held by the right remote, or a
  carry or menu request on the hovered carryable entity.
\<close>

definition startsInteraction :: "HubsWorld \<Rightarrow> UserInputSystem \<Rightarrow> bool" where
  "startsInteraction world userinput =
     ((truthy (anyEntityWith world HeldRemoteRight) \<noteq> None \<and> carry_toggle_snap userinput) \<or>
      (truthy (case queryHoveredRemoteRight world of [] \<Rightarrow> None | eid # others \<Rightarrow> Some eid) \<noteq> None \<and>
       (carry_carry userinput \<or> cursor_right_menu userinput)))"

text \<open>
  A snapping frame whose ray hits a surface: the state is SNAPPING, the watchdog stays
  quiet, neither toggle-snap nor drop is requested, pointer lock was not lost, the first
  hit of the ray on the scene root's object is \<open>hit\<close>, and the active entity's scene
  object is \<open>obj\<close>.
\<close>

definition snappingHit ::
  "HubsWorld \<Rightarrow> UserInputSystem \<Rightarrow> Camera \<Rightarrow> sys \<Rightarrow> Intersection \<Rightarrow> Object3D \<Rightarrow> bool" where
  "snappingHit world userinput camera s hit obj =
     (carryState s = SNAPPING \<and> \<not> watchdogFires world s \<and>
      \<not> carry_toggle_snap userinput \<and> \<not> carry_drop userinput \<and> \<not> exitedPointerlock s \<and>
      (case anyEntityWith world SceneRoot of
         None \<Rightarrow> False
       | Some currentScene \<Rightarrow>
           (case eid2obj world currentScene of
              None \<Rightarrow> False
            | Some sceneObj \<Rightarrow>
                (case camera sceneObj of [] \<Rightarrow> False | first # others \<Rightarrow> first = hit))) \<and>
      eid2obj world (activeObject (carryStateData s)) = Some obj)"

subsection \<open>A small world to run the model on\<close>

text \<open>
  A stand-in for the three.js routines in the concrete runs below: every rotation is the
  identity and vectors pass through unchanged. No conclusion of a run reads an
  orientation.
\<close>

definition plainDeps :: Deps where
  "plainDeps =
     \<lparr>setFromAxisAngle = (\<lambda>axis angle. Quaternion 0 0 0 1),
      multiplyQ = (\<lambda>a b. a),
      applyQuaternion = (\<lambda>v q. v),
      setFromUnitVectors = (\<lambda>vFrom vTo. Quaternion 0 0 0 1),
      lookAtRotation = (\<lambda>eye target up. Quaternion 0 0 0 1),
      applyNormalMatrix = (\<lambda>n m. n),
      projectOnPlane = (\<lambda>v n. v_sub v (v_multiplyScalar n (v_dot v n))),
      normalize = (\<lambda>v. v),
      unlockPointerOnDrop = True,
      MODIFY_GRAVITY_ON_RELEASE = 1\<rparr>"

definition unitCube :: Object3D where
  "unitCube =
     \<lparr>position = Vector3 0 0 0, quaternion = Quaternion 0 0 0 1, scale = Vector3 1 1 1,
      localBoundingBox = (Vector3 0 0 0, Vector3 1 1 1)\<rparr>"

text \<open>
  Entity 2 is a carryable object owned by this client, entity 3 the scene root, entity 7 a
  carryable object held through the input method \<open>marker\<close>. All three have a scene object.
\<close>

definition sampleWorld :: "Component \<Rightarrow> HubsWorld" where
  "sampleWorld marker =
     \<lparr>entities = [0, 2, 3, 7],
      components = (\<lambda>eid. {})
        (2 := {Carryable, Rigidbody, Owned},
         3 := {SceneRoot},
         7 := {Carryable, Rigidbody, Held, marker}),
      eid2obj = [2 \<mapsto> unitCube, 3 \<mapsto> unitCube, 7 \<mapsto> unitCube],
      time_delta = 1000,
      canTakeOwnership = (\<lambda>eid. True),
      bodyId = (\<lambda>eid. 100 + eid),
      floatyFlags = (\<lambda>eid. 0),
      physicsCalls = [],
      pointerLockCalls = [],
      selection = {},
      visibleEdgeColor = 0,
      uiEvents = []\<rparr>"

definition noInput :: UserInputSystem where
  "noInput =
     \<lparr>carry_toggle_snap = False, carry_drop = False, carry_rotate_ccw = False,
      carry_rotate_cw = False, carry_change_snap_face = False, carry_snap_nudge = None,
      carry_snap_scale = None, carry_toggle_gravity = False, carry_carry = False,
      cursor_right_menu = False, mouse_pos = (0, 0)\<rparr>"

definition sampleController :: CharacterControllerSystem where
  "sampleController =
     \<lparr>avatarRigWorldPosition = Vector3 0 0 0, avatarPOVWorldDirection = Vector3 0 0 (- 1)\<rparr>"

definition noHit :: Camera where
  "noHit = (\<lambda>sceneObj. [])"

definition floorHit :: Intersection where
  "floorHit =
     \<lparr>point = Vector3 0 0 0,
      object = \<lparr>meshId = 1, geometry = 1,
                matrixWorld = [1, 0, 0, 0, 0, 1, 0, 0, 0, 0, 1, 0, 0, 0, 0, 1]\<rparr>,
      faceNormal = Vector3 0 1 0\<rparr>"

definition floorCamera :: Camera where
  "floorCamera = (\<lambda>sceneObj. [floorHit])"

text \<open>Entity 2 carried from the initial state, and the frame that then toggles snapping.\<close>

definition carrying2 :: outcome where
  "carrying2 = carryObject plainDeps 2 initial_sys (sampleWorld HeldRemoteRight)"

definition snapping2 :: outcome where
  "snapping2 =
     carrySystem plainDeps (world_of carrying2) (noInput\<lparr>carry_toggle_snap := True\<rparr>)
       sampleController noHit (sys_of carrying2)"

text \<open>
  The snapping state of entity 2 once the user has nudged the object 0.3 below the floor
  it rests on, and the cube as the carrying frame left it.
\<close>

definition embedded2 :: sys where
  "embedded2 =
     (sys_of snapping2)
       \<lparr>carryStateData := (carryStateData (sys_of snapping2))\<lparr>nudgeOffset := - 0.3\<rparr>,
        prevDot := 1\<rparr>"

definition carriedCube :: Object3D where
  "carriedCube = unitCube\<lparr>position := Vector3 0 0.6 0.5\<rparr>"

text \<open>A snapping frame without a hit in which the snap face is changed.\<close>

definition pressed2 :: outcome where
  "pressed2 =
     carrySystem plainDeps (world_of snapping2) (noInput\<lparr>carry_change_snap_face := True\<rparr>)
       sampleController noHit (sys_of snapping2)"

text \<open>The sample world after entity 2 has been removed from it.\<close>

definition removedWorld :: HubsWorld where
  "removedWorld =
     (sampleWorld HeldRemoteRight)
       \<lparr>entities := [0, 3, 7],
        components := (components (sampleWorld HeldRemoteRight))(2 := {}),
        eid2obj := (eid2obj (sampleWorld HeldRemoteRight))(2 := None)\<rparr>"

text \<open>
  The first snapping frame of entity 2, with the view on the floor, and the cube as that
  frame leaves it; then a hit on a wall whose normal is horizontal.
\<close>

definition floored2 :: outcome where
  "floored2 =
     carrySystem plainDeps (world_of snapping2) noInput sampleController floorCamera
       (sys_of snapping2)"

definition flooredCube :: Object3D where
  "flooredCube = unitCube\<lparr>position := Vector3 0 0.501 0\<rparr>"

definition wallHit :: Intersection where
  "wallHit =
     \<lparr>point = Vector3 0 2 (- 3),
      object = \<lparr>meshId = 2, geometry = 2,
                matrixWorld = [1, 0, 0, 0, 0, 1, 0, 0, 0, 0, 1, 0, 0, 0, 0, 1]\<rparr>,
      faceNormal = Vector3 0 0 1\<rparr>"

definition wallCamera :: Camera where
  "wallCamera = (\<lambda>sceneObj. [wallHit])"

text \<open>
  The world of the carried entity 2 before any physics body has been registered: the
  \<open>Rigidbody\<close> store reads \<open>0\<close> for every entity.
\<close>

definition sharedBodyWorld :: HubsWorld where
  "sharedBodyWorld = (world_of carrying2)\<lparr>bodyId := (\<lambda>eid. 0)\<rparr>"

section \<open>Properties\<close>

lemmas SnapFace_defs = AUTO_def LEFT_def FRONT_def RIGHT_def TOP_def BOTTOM_def BACK_def

subsection \<open>How the steps change the module state\<close>

lemma rotateStep_fields [simp]:
  "carryState (rotateStep u w s) = carryState s"
  "activeObject (carryStateData (rotateStep u w s)) = activeObject (carryStateData s)"
  "snapFace (carryStateData (rotateStep u w s)) = snapFace (carryStateData s)"
  "nudgeOffset (carryStateData (rotateStep u w s)) = nudgeOffset (carryStateData s)"
  "center (carryStateData (rotateStep u w s)) = center (carryStateData s)"
  "size_v (carryStateData (rotateStep u w s)) = size_v (carryStateData s)"
  "prevDot (rotateStep u w s) = prevDot s"
  "arrowHelper_visible (rotateStep u w s) = arrowHelper_visible s"
  "gridMesh_visible (rotateStep u w s) = gridMesh_visible s"
  by (simp_all add: rotateStep_def)

lemma changeSnapFace_fields [simp]:
  "carryState (changeSnapFace s) = carryState s"
  "activeObject (carryStateData (changeSnapFace s)) = activeObject (carryStateData s)"
  "snapFace (carryStateData (changeSnapFace s)) = (snapFace (carryStateData s) + 1) smod 6"
  "nudgeOffset (carryStateData (changeSnapFace s)) = nudgeOffset (carryStateData s)"
  "rotationOffset (carryStateData (changeSnapFace s)) = rotationOffset (carryStateData s)"
  "center (carryStateData (changeSnapFace s)) = center (carryStateData s)"
  "size_v (carryStateData (changeSnapFace s)) = size_v (carryStateData s)"
  "prevDot (changeSnapFace s) = prevDot s"
  "arrowHelper_visible (changeSnapFace s) = arrowHelper_visible s"
  "gridMesh_visible (changeSnapFace s) = gridMesh_visible s"
  by (simp_all add: changeSnapFace_def)

lemma nudgeStep_fields [simp]:
  "carryState (nudgeStep u w s) = carryState s"
  "activeObject (carryStateData (nudgeStep u w s)) = activeObject (carryStateData s)"
  "snapFace (carryStateData (nudgeStep u w s)) = snapFace (carryStateData s)"
  "rotationOffset (carryStateData (nudgeStep u w s)) = rotationOffset (carryStateData s)"
  "center (carryStateData (nudgeStep u w s)) = center (carryStateData s)"
  "size_v (carryStateData (nudgeStep u w s)) = size_v (carryStateData s)"
  "prevDot (nudgeStep u w s) = prevDot s"
  "arrowHelper_visible (nudgeStep u w s) = arrowHelper_visible s"
  "gridMesh_visible (nudgeStep u w s) = gridMesh_visible s"
  by (simp_all add: nudgeStep_def split: option.split)

lemma surfaceStep_fields [simp]:
  "carryState (surfaceStep D h s) = carryState s"
  "activeObject (carryStateData (surfaceStep D h s)) = activeObject (carryStateData s)"
  "snapFace (carryStateData (surfaceStep D h s)) = snapFace (carryStateData s)"
  "center (carryStateData (surfaceStep D h s)) = center (carryStateData s)"
  "size_v (carryStateData (surfaceStep D h s)) = size_v (carryStateData s)"
  "prevDot (surfaceStep D h s) = v_dot (hitNormal D h) Y_AXIS"
  "gridMesh_visible (surfaceStep D h s) = gridMesh_visible s"
  by (simp_all add: surfaceStep_def Let_def)

lemma snapOnHit_fields [simp]:
  "carryState (sys_of (snapOnHit D w u h s)) = carryState s"
  "activeObject (carryStateData (sys_of (snapOnHit D w u h s))) = activeObject (carryStateData s)"
  "snapFace (carryStateData (sys_of (snapOnHit D w u h s))) = snapFace (carryStateData s)"
  "gridMesh_visible (sys_of (snapOnHit D w u h s)) = gridMesh_visible s"
  by (simp_all add: snapOnHit_def Let_def split: option.split)

lemma dropObject_fields [simp]:
  "carryState (fst (dropObject D g s w)) = NONE"
  "activeObject (carryStateData (fst (dropObject D g s w))) = 0"
  "snapFace (carryStateData (fst (dropObject D g s w))) = snapFace (carryStateData s)"
  "\<not> arrowHelper_visible (fst (dropObject D g s w))"
  "\<not> gridMesh_visible (fst (dropObject D g s w))"
  by (simp_all add: dropObject_def Let_def)

lemma carryObject_fields [simp]:
  "carryState (sys_of (carryObject D eid s w)) = CARRYING"
  "activeObject (carryStateData (sys_of (carryObject D eid s w))) = eid"
  "applyGravity (carryStateData (sys_of (carryObject D eid s w)))"
  "snapFace (carryStateData (sys_of (carryObject D eid s w))) = snapFace (carryStateData s)"
  "arrowHelper_visible (sys_of (carryObject D eid s w)) = arrowHelper_visible s"
  "gridMesh_visible (sys_of (carryObject D eid s w)) = gridMesh_visible s"
  by (simp_all add: carryObject_def clearObjectMenu_def Let_def split: option.split)

lemma enterSnapping_fields [simp]:
  "carryState (enterSnapping s) = SNAPPING"
  "activeObject (carryStateData (enterSnapping s)) = activeObject (carryStateData s)"
  "snapFace (carryStateData (enterSnapping s)) = - 1"
  "rotationOffset (carryStateData (enterSnapping s)) = 0"
  "nudgeOffset (carryStateData (enterSnapping s)) = NUDGE_START_OFFSET"
  "arrowHelper_visible (enterSnapping s) = arrowHelper_visible s"
  "gridMesh_visible (enterSnapping s)"
  by (simp_all add: enterSnapping_def)

lemma showObjectMenu_fields [simp]:
  "carryState (showObjectMenu e mx my s) = MENU"
  "activeObject (carryStateData (showObjectMenu e mx my s)) = e"
  "snapFace (carryStateData (showObjectMenu e mx my s)) = snapFace (carryStateData s)"
  "arrowHelper_visible (showObjectMenu e mx my s) = arrowHelper_visible s"
  "gridMesh_visible (showObjectMenu e mx my s) = gridMesh_visible s"
  by (simp_all add: showObjectMenu_def)

lemma clearObjectMenu_fields [simp]:
  "carryState (clearObjectMenu s) = NONE"
  "activeObject (carryStateData (clearObjectMenu s)) = 0"
  "snapFace (carryStateData (clearObjectMenu s)) = snapFace (carryStateData s)"
  by (simp_all add: clearObjectMenu_def)

lemma watchdog_fields [simp]:
  "carryState (watchdog w s) = (if watchdogFires w s then NONE else carryState s)"
  "activeObject (carryStateData (watchdog w s)) =
     (if watchdogFires w s then 0 else activeObject (carryStateData s))"
  "snapFace (carryStateData (watchdog w s)) = snapFace (carryStateData s)"
  "arrowHelper_visible (watchdog w s) = (\<not> watchdogFires w s \<and> arrowHelper_visible s)"
  "gridMesh_visible (watchdog w s) = (\<not> watchdogFires w s \<and> gridMesh_visible s)"
  by (simp_all add: watchdog_def)

lemma finishTick_fields [simp]:
  "carryState (sys_of (finishTick r)) = carryState (sys_of r)"
  "carryStateData (sys_of (finishTick r)) = carryStateData (sys_of r)"
  "arrowHelper_visible (sys_of (finishTick r)) = arrowHelper_visible (sys_of r)"
  "gridMesh_visible (sys_of (finishTick r)) = gridMesh_visible (sys_of r)"
  "prevDot (sys_of (finishTick r)) = prevDot (sys_of r)"
  by (simp_all add: finishTick_def split: outcome.split)

subsection \<open>How the collaborator calls change the world\<close>

lemma takeOwnership_fields [simp]:
  "entities (takeOwnership w e) = entities w"
  "eid2obj (takeOwnership w e) = eid2obj w"
  "bodyId (takeOwnership w e) = bodyId w"
  "physicsCalls (takeOwnership w e) = physicsCalls w"
  "pointerLockCalls (takeOwnership w e) = pointerLockCalls w"
  "selection (takeOwnership w e) = selection w"
  by (simp_all add: takeOwnership_def)

lemma entityExists_irrelevant [simp]:
  "entityExists (w\<lparr>components := c\<rparr>) e = entityExists w e"
  "entityExists (w\<lparr>visibleEdgeColor := x\<rparr>) e = entityExists w e"
  "entityExists (w\<lparr>selection := y\<rparr>) e = entityExists w e"
  "entityExists (takeOwnership w e') e = entityExists w e"
  by (simp_all add: entityExists_def takeOwnership_def)

lemma requestPointerLock_fields [simp]:
  "entities (requestPointerLock w) = entities w"
  "eid2obj (requestPointerLock w) = eid2obj w"
  "bodyId (requestPointerLock w) = bodyId w"
  "physicsCalls (requestPointerLock w) = physicsCalls w"
  "components (requestPointerLock w) = components w"
  "selection (requestPointerLock w) = selection w"
  by (simp_all add: requestPointerLock_def)

lemma updateBodyOptions_fields [simp]:
  "entities (updateBodyOptions w b opts) = entities w"
  "eid2obj (updateBodyOptions w b opts) = eid2obj w"
  "bodyId (updateBodyOptions w b opts) = bodyId w"
  "physicsCalls (updateBodyOptions w b opts) = physicsCalls w @ [(b, opts)]"
  "components (updateBodyOptions w b opts) = components w"
  "selection (updateBodyOptions w b opts) = selection w"
  by (simp_all add: updateBodyOptions_def)

lemma more_world_fields [simp]:
  "time_delta (takeOwnership w e) = time_delta w"
  "time_delta (requestPointerLock w) = time_delta w"
  "time_delta (updateBodyOptions w b opts) = time_delta w"
  "pointerLockCalls (requestPointerLock w) = pointerLockCalls w @ [RequestPointerLock]"
  "pointerLockCalls (updateBodyOptions w b opts) = pointerLockCalls w"
  "components (takeOwnership w e) =
     (if canTakeOwnership w e then (components w)(e := insert Owned (components w e)) else components w)"
  by (simp_all add: takeOwnership_def requestPointerLock_def updateBodyOptions_def)

lemma finishTick_world [simp]:
  "eid2obj (world_of (finishTick r)) = eid2obj (world_of r)"
  "selection (world_of (finishTick r)) = selection (world_of r)"
  "physicsCalls (world_of (finishTick r)) = physicsCalls (world_of r)"
  by (simp_all add: finishTick_def updateUI_def split: outcome.split)

lemma finishTick_more [simp]:
  "entities (world_of (finishTick r)) = entities (world_of r)"
  "components (world_of (finishTick r)) = components (world_of r)"
  "time_delta (world_of (finishTick r)) = time_delta (world_of r)"
  "\<not> exitedPointerlock (sys_of (finishTick r)) \<or> (\<exists>e s w. r = Thrown e s w)"
  by (auto simp add: finishTick_def updateUI_def split: outcome.split)

lemma selection_irrelevant [simp]:
  "watchdogFires (w\<lparr>selection := x\<rparr>) s = watchdogFires w s"
  "watchdog (w\<lparr>selection := x\<rparr>) s = watchdog w s"
  "anyEntityWith (w\<lparr>selection := x\<rparr>) c = anyEntityWith w c"
  "queryHoveredRemoteRight (w\<lparr>selection := x\<rparr>) = queryHoveredRemoteRight w"
  "startsInteraction (w\<lparr>selection := x\<rparr>) u = startsInteraction w u"
  by (simp_all add: watchdog_def watchdogFires_def entityExists_def hasComponent_def
      anyEntityWith_def queryHoveredRemoteRight_def startsInteraction_def cong: find_cong)

lemma edgeColor_irrelevant [simp]:
  "anyEntityWith (w\<lparr>visibleEdgeColor := x\<rparr>) c = anyEntityWith w c"
  "queryHoveredRemoteRight (w\<lparr>visibleEdgeColor := x\<rparr>) = queryHoveredRemoteRight w"
  by (simp_all add: hasComponent_def anyEntityWith_def queryHoveredRemoteRight_def cong: find_cong)

lemma steps_ignore_selection [simp]:
  "rotateStep u (w\<lparr>selection := x\<rparr>) s = rotateStep u w s"
  "rotateStep u (w\<lparr>visibleEdgeColor := c\<rparr>) s = rotateStep u w s"
  "nudgeStep u (w\<lparr>selection := x\<rparr>) s = nudgeStep u w s"
  "nudgeStep u (w\<lparr>visibleEdgeColor := c\<rparr>) s = nudgeStep u w s"
  "scaleStep u (w\<lparr>selection := x\<rparr>) obj = scaleStep u w obj"
  "scaleStep u (w\<lparr>visibleEdgeColor := c\<rparr>) obj = scaleStep u w obj"
  by (simp_all add: rotateStep_def nudgeStep_def scaleStep_def split: option.split)

lemma scaleStep_delta:
  "time_delta w1 = time_delta w \<Longrightarrow> scaleStep u w1 obj = scaleStep u w obj"
  by (simp add: scaleStep_def split: option.split)

lemma nudgeStep_delta:
  "time_delta w1 = time_delta w \<Longrightarrow> nudgeStep u w1 s = nudgeStep u w s"
  by (simp add: nudgeStep_def split: option.split)

lemma carryObject_present:
  assumes "entityExists world eid"
  shows "carryObject D eid s world =
     (let s2 = (clearObjectMenu s)
                 \<lparr>carryState := CARRYING,
                  carryStateData := (carryStateData (clearObjectMenu s))
                    \<lparr>activeObject := eid, applyGravity := True\<rparr>\<rparr>;
          w1 = takeOwnership world eid;
          w8 = updateBodyOptions
                 (requestPointerLock
                    (w1\<lparr>components := (components w1)
                         (eid := components w1 eid - {HeldRemoteRight, HeldRemoteLeft, HeldHandLeft, Held})\<rparr>))
                 (bodyId world eid)
                 \<lparr>bodyType = Kinematic, gravity = Vector3 0 0 0,
                  angularDamping = None, linearDamping = None,
                  linearSleepingThreshold = None, angularSleepingThreshold = None,
                  collisionFilterMask = None\<rparr>
      in case eid2obj world eid of
           None \<Rightarrow> Thrown TypeError s2 w8
         | Some obj \<Rightarrow>
             Done (s2\<lparr>carryStateData := (carryStateData s2)
                         \<lparr>center := fst (localBoundingBox obj),
                          size_v := snd (localBoundingBox obj)\<rparr>,
                      uiNeedsUpdate := True\<rparr>) w8)"
proof -
  have remove: "removeComponent w c eid =
      Some (w\<lparr>components := (components w)(eid := components w eid - {c})\<rparr>)"
    if "entityExists w eid" for w c
    using that by (simp add: removeComponent_def)
  have sets: "A - {HeldRemoteRight} - {HeldRemoteLeft} - {HeldRemoteRight} - {HeldHandLeft} - {Held} =
      A - {HeldRemoteRight, HeldRemoteLeft, HeldHandLeft, Held}"
    "A - {HeldRemoteRight} - {HeldRemoteLeft} - {HeldHandLeft} - {Held} =
      A - {HeldRemoteRight, HeldRemoteLeft, HeldHandLeft, Held}" for A :: "Component set"
    by auto
  show ?thesis
    using assms
    by (simp add: carryObject_def Let_def remove clearObjectMenu_def sets split: option.split)
qed

lemma carryObject_missing:
  assumes "\<not> entityExists world eid"
  shows "carryObject D eid s world =
     Thrown EntityMissing
       ((clearObjectMenu s)
          \<lparr>carryState := CARRYING,
           carryStateData := (carryStateData (clearObjectMenu s))
             \<lparr>activeObject := eid, applyGravity := True\<rparr>\<rparr>)
       (takeOwnership world eid)"
  using assms by (simp add: carryObject_def Let_def removeComponent_def clearObjectMenu_def)



lemma carryObject_world:
  "entities (world_of (carryObject D e s w)) = entities w"
  "eid2obj (world_of (carryObject D e s w)) = eid2obj w"
  "time_delta (world_of (carryObject D e s w)) = time_delta w"
  "selection (world_of (carryObject D e s w)) = selection w"
  "entityExists w e \<Longrightarrow> components (world_of (carryObject D e s w)) e' =
     (if e' = e
      then (if canTakeOwnership w e then insert Owned (components w e) else components w e)
             - {HeldRemoteRight, HeldRemoteLeft, HeldHandLeft, Held}
      else components w e')"
  by (cases "entityExists w e";
      simp add: carryObject_present carryObject_missing Let_def split: option.split)+

lemma carryObject_world2:
  "bodyId (world_of (carryObject D e s w)) = bodyId w"
  by (cases "entityExists w e")
    (simp_all add: carryObject_present carryObject_missing Let_def split: option.split)

lemma carryObject_done:
  assumes "entityExists w e" and "eid2obj w e = Some obj"
  shows "carryObject D e s w = Done (sys_of (carryObject D e s w)) (world_of (carryObject D e s w))"
    and "center (carryStateData (sys_of (carryObject D e s w))) = fst (localBoundingBox obj)"
    and "size_v (carryStateData (sys_of (carryObject D e s w))) = snd (localBoundingBox obj)"
  using assms by (simp_all add: carryObject_present Let_def)

lemma anyEntityWith_exists:
  assumes "truthy (anyEntityWith w c) = Some e"
  shows "entityExists w e"
proof -
  from assms have "find (hasComponent w c) (entities w) = Some e"
    by (simp add: truthy_def anyEntityWith_def split: option.splits if_splits)
  then show ?thesis
    by (auto simp add: entityExists_def find_Some_iff)
qed

subsection \<open>The active object is cleared with the state\<close>

lemma handleSnapping_cleared:
  assumes "carryState s = NONE \<longrightarrow> activeObject (carryStateData s) = 0"
  shows "carryState (sys_of (handleSnapping D w cam u s)) = NONE \<longrightarrow>
     activeObject (carryStateData (sys_of (handleSnapping D w cam u s))) = 0"
  using assms
  by (auto simp: handleSnapping_def Let_def split_beta
      split: if_splits option.splits list.splits)

lemma snappingTick_cleared:
  assumes "carryState s = NONE \<longrightarrow> activeObject (carryStateData s) = 0"
  shows "carryState (sys_of (snappingTick D w u cam s)) = NONE \<longrightarrow>
     activeObject (carryStateData (sys_of (snappingTick D w u cam s))) = 0"
  using assms handleSnapping_cleared [OF assms]
  by (simp add: snappingTick_def Let_def split: option.split)

lemma carryingTick_cleared:
  assumes "carryState s = NONE \<longrightarrow> activeObject (carryStateData s) = 0"
  shows "carryState (sys_of (carryingTick D w u cc s)) = NONE \<longrightarrow>
     activeObject (carryStateData (sys_of (carryingTick D w u cc s))) = 0"
  using assms
  by (auto simp: carryingTick_def Let_def split_beta split: option.splits if_splits)

lemma idleHover_cleared:
  assumes "carryState s = NONE \<longrightarrow> activeObject (carryStateData s) = 0"
  shows "carryState (sys_of (idleHover D w u hov s)) = NONE \<longrightarrow>
     activeObject (carryStateData (sys_of (idleHover D w u hov s))) = 0"
  using assms
  by (auto simp: idleHover_def Let_def split: option.splits if_splits)

lemma fastPath_state:
  "carryState (sys_of (case carryObject D eid s w of
       Thrown e s' w' \<Rightarrow> Thrown e s' w'
     | Done s' w' \<Rightarrow> Done (enterSnapping s') w')) \<noteq> NONE"
  using carryObject_fields(1) [of D eid s w]
  by (cases "carryObject D eid s w") simp_all

lemma idleTick_cleared:
  assumes "carryState s = NONE \<longrightarrow> activeObject (carryStateData s) = 0"
  shows "carryState (sys_of (idleTick D w u s)) = NONE \<longrightarrow>
     activeObject (carryStateData (sys_of (idleTick D w u s))) = 0"
  using idleHover_cleared [OF assms] fastPath_state
  by (simp add: idleTick_def Let_def split: option.split)

lemma watchdog_cleared:
  assumes "carryState s = NONE \<longrightarrow> activeObject (carryStateData s) = 0"
  shows "carryState (watchdog w s) = NONE \<longrightarrow> activeObject (carryStateData (watchdog w s)) = 0"
  using assms by simp

lemma carrySystem_cleared:
  assumes "carryState s = NONE \<longrightarrow> activeObject (carryStateData s) = 0"
  shows "carryState (sys_of (carrySystem D w u cc cam s)) = NONE \<longrightarrow>
     activeObject (carryStateData (sys_of (carrySystem D w u cc cam s))) = 0"
  using carryingTick_cleared [OF watchdog_cleared [OF assms]]
    snappingTick_cleared [OF watchdog_cleared [OF assms]]
    idleTick_cleared [OF watchdog_cleared [OF assms]]
  by (simp add: carrySystem_def Let_def del: watchdog_fields)

lemma initial_cleared: "activeObject (carryStateData initial_sys) = 0"
  by (simp add: initial_sys_def)

lemma reachable_cleared:
  "reachable s \<Longrightarrow> carryState s = NONE \<longrightarrow> activeObject (carryStateData s) = 0"
proof (induction rule: reachable.induct)
  case init
  show ?case by (simp add: initial_cleared)
next
  case (frame s D world userinput characterController camera)
  from frame.IH show ?case by (rule carrySystem_cleared)
next
  case (carry s D eid world)
  show ?case by simp
next
  case (clear s)
  show ?case by simp
next
  case (pointerlock s b)
  then show ?case by (simp add: onPointerlockchange_def)
qed

subsection \<open>The range of the snap face\<close>

lemma smod6_nonneg: "(0::int) \<le> k \<Longrightarrow> k smod 6 = k mod 6"
  by (cases "k = 0") (simp_all add: smod_int_alt_def)

lemma smod6_numerals:
  "(0::int) smod 6 = 0" "(1::int) smod 6 = 1" "(2::int) smod 6 = 2" "(3::int) smod 6 = 3"
  "(4::int) smod 6 = 4" "(5::int) smod 6 = 5" "(6::int) smod 6 = 0"
  by (simp_all add: smod6_nonneg)

lemma funpow6: "(f ^^ 6) x = f (f (f (f (f (f x)))))"
  by (simp add: eval_nat_numeral)

lemma cycle_in_range:
  assumes "- 1 \<le> f" and "f \<le> (5::int)"
  shows "0 \<le> (f + 1) smod 6 \<and> (f + 1) smod 6 \<le> 5"
  using assms by (simp add: smod6_nonneg)

lemma handleSnapping_face:
  "snapFace (carryStateData (sys_of (handleSnapping D w cam u s))) = snapFace (carryStateData s) \<or>
   (snapFace (carryStateData (sys_of (handleSnapping D w cam u s))) = (snapFace (carryStateData s) + 1) smod 6
     \<and> carry_change_snap_face u \<and> \<not> carry_toggle_snap u)"
  by (auto simp: handleSnapping_def Let_def split_beta
      split: if_splits option.splits list.splits)

lemma snappingTick_face:
  "snapFace (carryStateData (sys_of (snappingTick D w u cam s))) = snapFace (carryStateData s) \<or>
   (snapFace (carryStateData (sys_of (snappingTick D w u cam s))) = (snapFace (carryStateData s) + 1) smod 6
     \<and> carry_change_snap_face u \<and> \<not> carry_toggle_snap u)"
  using handleSnapping_face [of D _ cam u s]
  by (simp add: snappingTick_def Let_def split: option.split)

lemma carryingTick_face:
  "snapFace (carryStateData (sys_of (carryingTick D w u cc s))) = snapFace (carryStateData s) \<or>
   (snapFace (carryStateData (sys_of (carryingTick D w u cc s))) = - 1 \<and> carry_toggle_snap u \<and>
    carryState (sys_of (carryingTick D w u cc s)) = SNAPPING)"
  by (auto simp: carryingTick_def Let_def split_beta split: option.splits if_splits)

lemma idleHover_face:
  "snapFace (carryStateData (sys_of (idleHover D w u hov s))) = snapFace (carryStateData s)"
  by (auto simp: idleHover_def Let_def split: option.splits if_splits)

lemma fastPath_face:
  "snapFace (carryStateData (sys_of (case carryObject D eid s w of
       Thrown e s' w' \<Rightarrow> Thrown e s' w'
     | Done s' w' \<Rightarrow> Done (enterSnapping s') w'))) = snapFace (carryStateData s) \<or>
   (snapFace (carryStateData (sys_of (case carryObject D eid s w of
       Thrown e s' w' \<Rightarrow> Thrown e s' w'
     | Done s' w' \<Rightarrow> Done (enterSnapping s') w'))) = - 1 \<and>
    carryState (sys_of (case carryObject D eid s w of
       Thrown e s' w' \<Rightarrow> Thrown e s' w'
     | Done s' w' \<Rightarrow> Done (enterSnapping s') w')) = SNAPPING)"
  using carryObject_fields(4) [of D eid s w]
  by (cases "carryObject D eid s w") simp_all

lemma idleTick_face:
  "snapFace (carryStateData (sys_of (idleTick D w u s))) = snapFace (carryStateData s) \<or>
   (snapFace (carryStateData (sys_of (idleTick D w u s))) = - 1 \<and> carry_toggle_snap u \<and>
    carryState (sys_of (idleTick D w u s)) = SNAPPING)"
  using fastPath_face [of D _ s "w\<lparr>visibleEdgeColor := 575473\<rparr>"]
  by (auto simp add: idleTick_def Let_def idleHover_face split: option.split)

lemma carrySystem_face:
  "snapFace (carryStateData (sys_of (carrySystem D w u cc cam s))) = snapFace (carryStateData s) \<or>
   (snapFace (carryStateData (sys_of (carrySystem D w u cc cam s))) = (snapFace (carryStateData s) + 1) smod 6
     \<and> carry_change_snap_face u \<and> \<not> carry_toggle_snap u) \<or>
   (snapFace (carryStateData (sys_of (carrySystem D w u cc cam s))) = - 1 \<and> carry_toggle_snap u \<and>
    carryState (sys_of (carrySystem D w u cc cam s)) = SNAPPING)"
  using carryingTick_face [of D "w\<lparr>selection := {}\<rparr>" u cc "watchdog (w\<lparr>selection := {}\<rparr>) s"]
    snappingTick_face [of D "w\<lparr>selection := {}\<rparr>" u cam "watchdog (w\<lparr>selection := {}\<rparr>) s"]
    idleTick_face [of D "w\<lparr>selection := {}\<rparr>" u "watchdog (w\<lparr>selection := {}\<rparr>) s"]
  by (auto simp add: carrySystem_def Let_def)

lemma reachable_face:
  "reachable s \<Longrightarrow> - 1 \<le> snapFace (carryStateData s) \<and> snapFace (carryStateData s) \<le> 5"
proof (induction rule: reachable.induct)
  case init
  show ?case by (simp add: initial_sys_def AUTO_def)
next
  case (frame s D world userinput characterController camera)
  from frame.IH cycle_in_range [of "snapFace (carryStateData s)"]
    carrySystem_face [of D world userinput characterController camera s]
  show ?case by auto
next
  case (carry s D eid world)
  then show ?case by simp
next
  case (clear s)
  then show ?case by simp
next
  case (pointerlock s b)
  then show ?case by (simp add: onPointerlockchange_def)
qed

lemma handleSnapping_pressed:
  assumes "carry_change_snap_face u" "\<not> carry_toggle_snap u" "\<not> carry_drop u" "\<not> exitedPointerlock s"
  shows "snapFace (carryStateData (sys_of (handleSnapping D w cam u s))) =
     (snapFace (carryStateData s) + 1) smod 6"
  using assms
  by (simp add: handleSnapping_def Let_def split: option.split list.split)

lemma carrySystem_pressed:
  assumes "carryState s = SNAPPING" "\<not> watchdogFires world s"
    "eid2obj world (activeObject (carryStateData s)) \<noteq> None"
    "carry_change_snap_face u" "\<not> carry_toggle_snap u" "\<not> carry_drop u" "\<not> exitedPointerlock s"
  shows "snapFace (carryStateData (sys_of (carrySystem D world u cc cam s))) =
     (snapFace (carryStateData s) + 1) smod 6"
  using assms
  by (auto simp: carrySystem_def snappingTick_def Let_def watchdog_def addEntityToSelection_def
      handleSnapping_pressed split: option.split)

subsection \<open>Frames by branch\<close>

lemma carrySystem_fired:
  "watchdogFires w s \<Longrightarrow>
   carrySystem D w u cc cam s = finishTick (idleTick D (w\<lparr>selection := {}\<rparr>) u (watchdog w s))"
  by (simp add: carrySystem_def Let_def)





lemma idleTick_fastPath:
  assumes "truthy (anyEntityWith w HeldRemoteRight) = Some held" and "carry_toggle_snap u"
    and "eid2obj w held = Some obj"
  shows "idleTick D w u s =
     Done (enterSnapping (sys_of (carryObject D held s (w\<lparr>visibleEdgeColor := 575473\<rparr>))))
       (world_of (carryObject D held s (w\<lparr>visibleEdgeColor := 575473\<rparr>)))"
proof -
  have "eid2obj (w\<lparr>visibleEdgeColor := 575473\<rparr>) held = Some obj"
    using assms(3) by simp
  moreover have "entityExists (w\<lparr>visibleEdgeColor := 575473\<rparr>) held"
    using anyEntityWith_exists [OF assms(1)] by simp
  ultimately have "carryObject D held s (w\<lparr>visibleEdgeColor := 575473\<rparr>) =
      Done (sys_of (carryObject D held s (w\<lparr>visibleEdgeColor := 575473\<rparr>)))
        (world_of (carryObject D held s (w\<lparr>visibleEdgeColor := 575473\<rparr>)))"
    by (rule carryObject_done(1) [rotated])
  then obtain s' w' where
    "carryObject D held s (w\<lparr>visibleEdgeColor := 575473\<rparr>) = Done s' w'"
    by blast
  with assms(1,2) show ?thesis
    by (simp add: idleTick_def Let_def)
qed

lemma carrySystem_carrying:
  assumes "carryState s = CARRYING" and "\<not> watchdogFires w s"
  shows "carrySystem D w u cc cam s = finishTick (carryingTick D (w\<lparr>selection := {}\<rparr>) u cc s)"
  using assms by (simp add: carrySystem_def Let_def watchdog_def)

lemma carryingTick_toggle:
  assumes "eid2obj w (activeObject (carryStateData s)) = Some obj"
    and "carry_toggle_snap u" and "\<not> carry_drop u" and "\<not> exitedPointerlock s"
  shows "carryingTick D w u cc s =
     Done (enterSnapping
            (if carry_toggle_gravity u
             then s\<lparr>carryStateData := (carryStateData s)\<lparr>applyGravity := \<not> applyGravity (carryStateData s)\<rparr>,
                    uiNeedsUpdate := True\<rparr>
             else s))
       (w\<lparr>eid2obj := (eid2obj w)(activeObject (carryStateData s) \<mapsto>
           obj\<lparr>quaternion :=
                  setFromUnitVectors D Z_AXIS
                    (normalize D (projectOnPlane D (avatarPOVWorldDirection cc) Y_AXIS)),
                position :=
                  v_add (avatarRigWorldPosition cc)
                    (Vector3
                       (vx (v_multiplyScalar
                          (normalize D (projectOnPlane D (avatarPOVWorldDirection cc) Y_AXIS))
                          (- CARRY_DISTANCE)))
                       CARRY_HEIGHT
                       (vz (v_multiplyScalar
                          (normalize D (projectOnPlane D (avatarPOVWorldDirection cc) Y_AXIS))
                          (- CARRY_DISTANCE))))\<rparr>)\<rparr>)"
  using assms by (simp add: carryingTick_def Let_def)

lemma carryingTick_drop:
  assumes "eid2obj w (activeObject (carryStateData s)) = Some obj"
    and "carry_drop u" and "\<not> carry_toggle_snap u"
  shows "carryState (sys_of (carryingTick D w u cc s)) = NONE"
  using assms by (simp add: carryingTick_def Let_def split_beta)

lemma snapping_nohit:
  assumes "carryState s = SNAPPING" and "\<not> watchdogFires w s"
    and "eid2obj w (activeObject (carryStateData s)) = Some obj"
    and "\<not> carry_toggle_snap u" and "\<not> carry_drop u" and "\<not> exitedPointerlock s"
    and "anyEntityWith w SceneRoot = Some currentScene"
    and "eid2obj w currentScene = Some sceneObj"
    and "cam sceneObj = []"
  shows "carryState (sys_of (carrySystem D w u cc cam s)) = SNAPPING"
    and "carryStateData (sys_of (carrySystem D w u cc cam s)) =
       carryStateData (if carry_change_snap_face u then changeSnapFace (rotateStep u w s)
                       else rotateStep u w s)"
  using assms
  by (simp_all add: carrySystem_def snappingTick_def handleSnapping_def addEntityToSelection_def
      Let_def watchdog_def)

lemma rotateStep_cw:
  assumes "carry_rotate_cw u" and "\<not> carry_rotate_ccw u"
  shows "rotationOffset (carryStateData (rotateStep u w s)) =
     rotationOffset (carryStateData s) + (2 * pi / 4 / 1000) * time_delta w"
  using assms by (simp add: rotateStep_def ROTATION_SPEED_def ROTATIONS_PER_SECOND_def)

subsection \<open>Snapping frames with a hit\<close>

lemma COS_FLOOR_SNAP_ANGLE_eq: "COS_FLOOR_SNAP_ANGLE = cos (pi / 4)"
  by (simp add: COS_FLOOR_SNAP_ANGLE_def FLOOR_SNAP_ANGLE_def degToRad_def)

lemma component_ones [simp]: "component (Vector3 1 1 1) a = 1"
  by (cases a) (simp_all add: component_def)

lemma snappingHit_obj:
  assumes "snappingHit world userinput camera s hit obj"
  shows "eid2obj world (activeObject (carryStateData s)) = Some obj"
  using assms by (simp add: snappingHit_def)

lemma carrySystem_snappingHit:
  assumes "snappingHit world userinput camera s hit obj"
  shows "carrySystem D world userinput characterController camera s =
     finishTick (snapOnHit D
       (if nudgeOffset (carryStateData s) < 0
        then world\<lparr>visibleEdgeColor := 16777215, selection := {activeObject (carryStateData s)}\<rparr>
        else world\<lparr>selection := {}, visibleEdgeColor := 16777215\<rparr>)
       userinput hit
       (if carry_change_snap_face userinput then changeSnapFace (rotateStep userinput world s)
        else rotateStep userinput world s))"
  using assms
  by (auto simp: snappingHit_def carrySystem_def snappingTick_def handleSnapping_def
      addEntityToSelection_def Let_def watchdog_def
      split: option.splits list.splits)

lemma face_cases:
  assumes "- 1 \<le> f" and "f \<le> (5::int)"
  shows "f = AUTO \<or> f = LEFT \<or> f = FRONT \<or> f = RIGHT \<or> f = TOP \<or> f = BOTTOM \<or> f = BACK"
  using assms unfolding SnapFace_defs by arith

lemma tables_defined:
  assumes "- 1 \<le> f" and "f \<le> (5::int)"
  shows "\<exists>rotationAxis axisName faceQuat.
     ROT_AXIS_FOR_FACE f = Some rotationAxis \<and> AXIS_NAME_FOR_FACE f = Some axisName \<and>
     QUAT_FOR_FACE D f = Some faceQuat"
  using face_cases [OF assms]
  by (elim disjE)
    (simp_all add: ROT_AXIS_FOR_FACE_def AXIS_NAME_FOR_FACE_def QUAT_FOR_FACE_def SnapFace_defs)

lemma effectiveSnapFace_range:
  assumes "- 1 \<le> snapFace d" and "snapFace d \<le> 5"
  shows "0 \<le> effectiveSnapFace d dot \<and> effectiveSnapFace d dot \<le> 5"
  using assms
  by (simp add: effectiveSnapFace_def DEFAULT_FLOOR_FACE_def DEFAULT_CEIL_FACE_def
      DEFAULT_WALL_FACE_def SnapFace_defs)

lemma placeObject_placed:
  assumes "- 1 \<le> face" and "face \<le> 5"
  shows "\<exists>obj' axisName.
     placeObject D d face dir target obj = Some obj' \<and>
     AXIS_NAME_FOR_FACE face = Some axisName \<and>
     scale obj' = scale obj \<and>
     position obj' =
       v_addScaledVector
         (v_sub target (applyQuaternion D (v_multiply (center d) (scale obj')) (quaternion obj')))
         dir (offsetDistance d (component (size_v d) axisName) (component (scale obj') axisName))"
proof -
  from tables_defined [OF assms, of D] obtain rotationAxis axisName faceQuat where
    "ROT_AXIS_FOR_FACE face = Some rotationAxis" "AXIS_NAME_FOR_FACE face = Some axisName"
    "QUAT_FOR_FACE D face = Some faceQuat"
    by blast
  then show ?thesis
    by (simp add: placeObject_def Let_def)
qed

lemma snapOnHit_result:
  assumes "eid2obj w (activeObject (carryStateData s)) = Some obj"
    and "placeObject D (carryStateData (surfaceStep D h (nudgeStep u w s)))
           (effectiveSnapFace (carryStateData (surfaceStep D h (nudgeStep u w s)))
              (v_dot (hitNormal D h) Y_AXIS))
           (hitNormal D h) (point h)
           (obj\<lparr>scale := v_max (scale (scaleStep u w obj)) MIN_SCALE,
                quaternion := lookAtRotation D (hitNormal D h) ZERO Y_AXIS\<rparr>) = Some obj'"
  shows "carryStateData (sys_of (snapOnHit D w u h s)) = carryStateData (surfaceStep D h (nudgeStep u w s))"
    and "eid2obj (world_of (snapOnHit D w u h s)) (activeObject (carryStateData s)) = Some obj'"
    and "selection (world_of (snapOnHit D w u h s)) = selection w"
    and "snapOnHit D w u h s = Done (sys_of (snapOnHit D w u h s)) (world_of (snapOnHit D w u h s))"
  using assms
  by (simp_all add: snapOnHit_def Let_def scaleStep_def split: option.splits)

lemma snapOnHit_data:
  assumes "eid2obj w (activeObject (carryStateData s)) = Some obj"
  shows "carryStateData (sys_of (snapOnHit D w u h s)) = carryStateData (surfaceStep D h (nudgeStep u w s))"
  using assms
  by (simp add: snapOnHit_def Let_def split: option.splits)

lemma surfaceStep_reset:
  assumes "\<bar>v_dot (hitNormal D h) Y_AXIS - prevDot s\<bar> > 0.2"
  shows "rotationOffset (carryStateData (surfaceStep D h s)) = 0"
    and "nudgeOffset (carryStateData (surfaceStep D h s)) = NUDGE_START_OFFSET"
  using assms by (simp_all add: surfaceStep_def Let_def)

lemma snapOnHit_prevDot:
  assumes "eid2obj w (activeObject (carryStateData s)) = Some obj"
  shows "prevDot (sys_of (snapOnHit D w u h s)) = v_dot (hitNormal D h) Y_AXIS"
  using assms
  by (simp add: snapOnHit_def Let_def split: option.splits)

lemma snapOnHit_world [simp]:
  "entities (world_of (snapOnHit D w u h s)) = entities w"
  "components (world_of (snapOnHit D w u h s)) = components w"
  "e \<noteq> activeObject (carryStateData s) \<Longrightarrow>
     eid2obj (world_of (snapOnHit D w u h s)) e = eid2obj w e"
  by (simp_all add: snapOnHit_def Let_def split: option.splits)

lemma snapping_frame:
  assumes "snappingHit world userinput camera s hit obj"
  obtains w1 s1 where
    "carrySystem D world userinput characterController camera s = finishTick (snapOnHit D w1 userinput hit s1)"
    "eid2obj w1 = eid2obj world" "time_delta w1 = time_delta world"
    "selection w1 = (if nudgeOffset (carryStateData s) < 0 then {activeObject (carryStateData s)} else {})"
    "activeObject (carryStateData s1) = activeObject (carryStateData s)"
    "snapFace (carryStateData s1) =
       (if carry_change_snap_face userinput then (snapFace (carryStateData s) + 1) smod 6
        else snapFace (carryStateData s))"
    "prevDot s1 = prevDot s"
    "nudgeOffset (carryStateData s1) = nudgeOffset (carryStateData s)"
    "center (carryStateData s1) = center (carryStateData s)"
    "size_v (carryStateData s1) = size_v (carryStateData s)"
proof -
  let ?w1 = "if nudgeOffset (carryStateData s) < 0
        then world\<lparr>visibleEdgeColor := 16777215, selection := {activeObject (carryStateData s)}\<rparr>
        else world\<lparr>selection := {}, visibleEdgeColor := 16777215\<rparr>"
  let ?s1 = "if carry_change_snap_face userinput then changeSnapFace (rotateStep userinput world s)
        else rotateStep userinput world s"
  show thesis
  proof (rule that [of ?w1 ?s1])
    show "carrySystem D world userinput characterController camera s =
      finishTick (snapOnHit D ?w1 userinput hit ?s1)"
      using assms by (rule carrySystem_snappingHit)
  qed simp_all
qed

lemma snapping_data:
  assumes "snappingHit world userinput camera s hit obj"
  shows "carryStateData (sys_of (carrySystem D world userinput characterController camera s)) =
     carryStateData (surfaceStep D hit (nudgeStep userinput world
       (if carry_change_snap_face userinput then changeSnapFace (rotateStep userinput world s)
        else rotateStep userinput world s)))"
proof -
  have "eid2obj world (activeObject (carryStateData s)) = Some obj"
    using assms by (rule snappingHit_obj)
  then show ?thesis
    by (simp add: carrySystem_snappingHit [OF assms] snapOnHit_data [where obj = obj])
qed

lemma snapping_placement:
  assumes hit: "snappingHit world userinput camera s hit obj"
    and range: "- 1 \<le> snapFace (carryStateData s) \<and> snapFace (carryStateData s) \<le> 5"
  obtains obj' axisName where
    "eid2obj (world_of (carrySystem D world userinput characterController camera s))
       (activeObject (carryStateData s)) = Some obj'"
    "placeObject D
       (carryStateData (sys_of (carrySystem D world userinput characterController camera s)))
       (effectiveSnapFace
          (carryStateData (sys_of (carrySystem D world userinput characterController camera s)))
          (v_dot (hitNormal D hit) Y_AXIS))
       (hitNormal D hit) (point hit)
       (obj\<lparr>scale := v_max (scale (scaleStep userinput world obj)) MIN_SCALE,
            quaternion := lookAtRotation D (hitNormal D hit) ZERO Y_AXIS\<rparr>) = Some obj'"
    "AXIS_NAME_FOR_FACE (effectiveSnapFace
          (carryStateData (sys_of (carrySystem D world userinput characterController camera s)))
          (v_dot (hitNormal D hit) Y_AXIS)) = Some axisName"
    "scale obj' = v_max (scale (scaleStep userinput world obj)) MIN_SCALE"
    "position obj' =
       v_addScaledVector
         (v_sub (point hit)
            (applyQuaternion D
               (v_multiply
                  (center (carryStateData
                     (sys_of (carrySystem D world userinput characterController camera s))))
                  (scale obj'))
               (quaternion obj')))
         (hitNormal D hit)
         (offsetDistance
            (carryStateData (sys_of (carrySystem D world userinput characterController camera s)))
            (component
               (size_v (carryStateData
                  (sys_of (carrySystem D world userinput characterController camera s))))
               axisName)
            (component (scale obj') axisName))"
    "selection (world_of (carrySystem D world userinput characterController camera s)) =
       (if nudgeOffset (carryStateData s) < 0 then {activeObject (carryStateData s)} else {})"
proof -
  from hit obtain w1 s1 where
    run: "carrySystem D world userinput characterController camera s =
      finishTick (snapOnHit D w1 userinput hit s1)"
    and w1: "eid2obj w1 = eid2obj world" "time_delta w1 = time_delta world"
      "selection w1 = (if nudgeOffset (carryStateData s) < 0 then {activeObject (carryStateData s)} else {})"
    and s1: "activeObject (carryStateData s1) = activeObject (carryStateData s)"
    and face: "snapFace (carryStateData s1) =
       (if carry_change_snap_face userinput then (snapFace (carryStateData s) + 1) smod 6
        else snapFace (carryStateData s))"
    by (rule snapping_frame)
  let ?d = "carryStateData (surfaceStep D hit (nudgeStep userinput w1 s1))"
  let ?dot = "v_dot (hitNormal D hit) Y_AXIS"
  let ?prep = "obj\<lparr>scale := v_max (scale (scaleStep userinput w1 obj)) MIN_SCALE,
            quaternion := lookAtRotation D (hitNormal D hit) ZERO Y_AXIS\<rparr>"
  have obj: "eid2obj w1 (activeObject (carryStateData s1)) = Some obj"
    using snappingHit_obj [OF hit] w1 s1 by simp
  have "- 1 \<le> snapFace ?d \<and> snapFace ?d \<le> 5"
    using range face cycle_in_range [of "snapFace (carryStateData s)"] by auto
  then have "0 \<le> effectiveSnapFace ?d ?dot \<and> effectiveSnapFace ?d ?dot \<le> 5"
    using effectiveSnapFace_range by blast
  then have "- 1 \<le> effectiveSnapFace ?d ?dot" "effectiveSnapFace ?d ?dot \<le> 5"
    by simp_all
  from placeObject_placed [OF this, of D ?d "hitNormal D hit" "point hit" ?prep]
  obtain obj' axisName where
    placed: "placeObject D ?d (effectiveSnapFace ?d ?dot) (hitNormal D hit) (point hit) ?prep = Some obj'"
    and axis: "AXIS_NAME_FOR_FACE (effectiveSnapFace ?d ?dot) = Some axisName"
    and sc: "scale obj' = scale ?prep"
    and pos: "position obj' =
       v_addScaledVector
         (v_sub (point hit) (applyQuaternion D (v_multiply (center ?d) (scale obj')) (quaternion obj')))
         (hitNormal D hit)
         (offsetDistance ?d (component (size_v ?d) axisName) (component (scale obj') axisName))"
    by blast
  note res = snapOnHit_result [OF obj placed]
  have data: "carryStateData (sys_of (carrySystem D world userinput characterController camera s)) = ?d"
    by (simp add: run res(1))
  show thesis
  proof (rule that [of obj' axisName])
    show "eid2obj (world_of (carrySystem D world userinput characterController camera s))
       (activeObject (carryStateData s)) = Some obj'"
      using res(2) s1 by (simp add: run)
    show "placeObject D
       (carryStateData (sys_of (carrySystem D world userinput characterController camera s)))
       (effectiveSnapFace
          (carryStateData (sys_of (carrySystem D world userinput characterController camera s)))
          (v_dot (hitNormal D hit) Y_AXIS))
       (hitNormal D hit) (point hit)
       (obj\<lparr>scale := v_max (scale (scaleStep userinput world obj)) MIN_SCALE,
            quaternion := lookAtRotation D (hitNormal D hit) ZERO Y_AXIS\<rparr>) = Some obj'"
      using placed by (simp only: data scaleStep_delta [OF w1(2)])
    show "AXIS_NAME_FOR_FACE (effectiveSnapFace
          (carryStateData (sys_of (carrySystem D world userinput characterController camera s)))
          (v_dot (hitNormal D hit) Y_AXIS)) = Some axisName"
      using axis by (simp only: data)
    show "scale obj' = v_max (scale (scaleStep userinput world obj)) MIN_SCALE"
      using sc by (simp add: scaleStep_delta [OF w1(2)])
    show "position obj' =
       v_addScaledVector
         (v_sub (point hit)
            (applyQuaternion D
               (v_multiply
                  (center (carryStateData
                     (sys_of (carrySystem D world userinput characterController camera s))))
                  (scale obj'))
               (quaternion obj')))
         (hitNormal D hit)
         (offsetDistance
            (carryStateData (sys_of (carrySystem D world userinput characterController camera s)))
            (component
               (size_v (carryStateData
                  (sys_of (carrySystem D world userinput characterController camera s))))
               axisName)
            (component (scale obj') axisName))"
      using pos by (simp only: data)
    show "selection (world_of (carrySystem D world userinput characterController camera s)) =
       (if nudgeOffset (carryStateData s) < 0 then {activeObject (carryStateData s)} else {})"
      using res(3) w1(3) by (simp add: run)
  qed
qed

lemma frame_records_dot:
  assumes "snappingHit world userinput camera s hit obj"
  shows "prevDot (sys_of (carrySystem D world userinput characterController camera s)) =
     v_dot (hitNormal D hit) Y_AXIS"
proof -
  from assms obtain w1 s1 where
    run: "carrySystem D world userinput characterController camera s =
      finishTick (snapOnHit D w1 userinput hit s1)"
    and w1: "eid2obj w1 = eid2obj world"
    and s1: "activeObject (carryStateData s1) = activeObject (carryStateData s)"
    by (rule snapping_frame)
  have "eid2obj w1 (activeObject (carryStateData s1)) = Some obj"
    using snappingHit_obj [OF assms] w1 s1 by simp
  then show ?thesis
    by (simp add: run snapOnHit_prevDot)
qed

lemma frame_reset:
  assumes "snappingHit world userinput camera s hit obj"
    and "\<bar>v_dot (hitNormal D hit) Y_AXIS - prevDot s\<bar> > 0.2"
  shows "rotationOffset (carryStateData
           (sys_of (carrySystem D world userinput characterController camera s))) = 0 \<and>
         nudgeOffset (carryStateData
           (sys_of (carrySystem D world userinput characterController camera s))) = NUDGE_START_OFFSET"
proof -
  from assms(1) obtain w1 s1 where
    run: "carrySystem D world userinput characterController camera s =
      finishTick (snapOnHit D w1 userinput hit s1)"
    and w1: "eid2obj w1 = eid2obj world"
    and s1: "activeObject (carryStateData s1) = activeObject (carryStateData s)" "prevDot s1 = prevDot s"
    by (rule snapping_frame)
  have obj: "eid2obj w1 (activeObject (carryStateData s1)) = Some obj"
    using snappingHit_obj [OF assms(1)] w1 s1 by simp
  have jump: "\<bar>v_dot (hitNormal D hit) Y_AXIS - prevDot (nudgeStep userinput w1 s1)\<bar> > 0.2"
    using assms(2) s1 by simp
  show ?thesis
    by (simp add: run snapOnHit_data [OF obj] surfaceStep_reset [OF jump])
qed

lemma finishTick_Done [simp]:
  "\<not> exitedPointerlock (sys_of (finishTick (Done s w)))"
  by (simp add: finishTick_def)

lemma snapping_frame_after:
  assumes hit: "snappingHit world userinput camera s hit obj"
    and range: "- 1 \<le> snapFace (carryStateData s) \<and> snapFace (carryStateData s) \<le> 5"
  shows "carryState (sys_of (carrySystem D world userinput characterController camera s)) = SNAPPING"
    and "activeObject (carryStateData
           (sys_of (carrySystem D world userinput characterController camera s))) =
         activeObject (carryStateData s)"
    and "\<not> exitedPointerlock (sys_of (carrySystem D world userinput characterController camera s))"
    and "entities (world_of (carrySystem D world userinput characterController camera s)) =
         entities world"
    and "components (world_of (carrySystem D world userinput characterController camera s)) =
         components world"
    and "e \<noteq> activeObject (carryStateData s) \<Longrightarrow>
         eid2obj (world_of (carrySystem D world userinput characterController camera s)) e =
         eid2obj world e"
proof -
  let ?w1 = "if nudgeOffset (carryStateData s) < 0
        then world\<lparr>visibleEdgeColor := 16777215, selection := {activeObject (carryStateData s)}\<rparr>
        else world\<lparr>selection := {}, visibleEdgeColor := 16777215\<rparr>"
  let ?s1 = "if carry_change_snap_face userinput then changeSnapFace (rotateStep userinput world s)
        else rotateStep userinput world s"
  let ?d = "carryStateData (surfaceStep D hit (nudgeStep userinput ?w1 ?s1))"
  let ?dot = "v_dot (hitNormal D hit) Y_AXIS"
  have run: "carrySystem D world userinput characterController camera s =
      finishTick (snapOnHit D ?w1 userinput hit ?s1)"
    using hit by (rule carrySystem_snappingHit)
  have state: "carryState s = SNAPPING"
    using hit by (simp add: snappingHit_def)
  have obj: "eid2obj ?w1 (activeObject (carryStateData ?s1)) = Some obj"
    using snappingHit_obj [OF hit] by simp
  have "- 1 \<le> snapFace ?d \<and> snapFace ?d \<le> 5"
    using range cycle_in_range [of "snapFace (carryStateData s)"] by auto
  then have "0 \<le> effectiveSnapFace ?d ?dot \<and> effectiveSnapFace ?d ?dot \<le> 5"
    using effectiveSnapFace_range by blast
  then have "- 1 \<le> effectiveSnapFace ?d ?dot" "effectiveSnapFace ?d ?dot \<le> 5"
    by simp_all
  from placeObject_placed [OF this, of D ?d "hitNormal D hit" "point hit"
      "obj\<lparr>scale := v_max (scale (scaleStep userinput ?w1 obj)) MIN_SCALE,
           quaternion := lookAtRotation D (hitNormal D hit) ZERO Y_AXIS\<rparr>"]
  obtain obj' where "placeObject D ?d (effectiveSnapFace ?d ?dot) (hitNormal D hit) (point hit)
      (obj\<lparr>scale := v_max (scale (scaleStep userinput ?w1 obj)) MIN_SCALE,
           quaternion := lookAtRotation D (hitNormal D hit) ZERO Y_AXIS\<rparr>) = Some obj'"
    by blast
  from snapOnHit_result(4) [OF obj this]
  obtain s' w' where "snapOnHit D ?w1 userinput hit ?s1 = Done s' w'"
    by blast
  then show "\<not> exitedPointerlock (sys_of (carrySystem D world userinput characterController camera s))"
    by (simp add: run)
  show "carryState (sys_of (carrySystem D world userinput characterController camera s)) = SNAPPING"
    using state by (simp add: run)
  show "activeObject (carryStateData
           (sys_of (carrySystem D world userinput characterController camera s))) =
         activeObject (carryStateData s)"
    by (simp add: run)
  show "entities (world_of (carrySystem D world userinput characterController camera s)) =
         entities world"
    by (simp add: run)
  show "components (world_of (carrySystem D world userinput characterController camera s)) =
         components world"
    by (simp add: run)
  show "eid2obj (world_of (carrySystem D world userinput characterController camera s)) e =
         eid2obj world e" if "e \<noteq> activeObject (carryStateData s)"
    using that by (simp add: run)
qed

subsection \<open>The sample runs\<close>

lemma plainDeps_apply [simp]: "applyQuaternion plainDeps v q = v"
  by (simp add: plainDeps_def)

lemma plainDeps_rotations [simp]:
  "multiplyQ plainDeps a b = a"
  "setFromAxisAngle plainDeps axis angle = Quaternion 0 0 0 1"
  "lookAtRotation plainDeps eye target up = Quaternion 0 0 0 1"
  by (simp_all add: plainDeps_def)

lemma sampleWorld_fields [simp]:
  "entities (sampleWorld m) = [0, 2, 3, 7]"
  "components (sampleWorld m) 0 = {}"
  "components (sampleWorld m) 3 = {SceneRoot}"
  "components (sampleWorld m) 2 = {Carryable, Rigidbody, Owned}"
  "components (sampleWorld m) 7 = {Carryable, Rigidbody, Held, m}"
  "eid2obj (sampleWorld m) = [2 \<mapsto> unitCube, 3 \<mapsto> unitCube, 7 \<mapsto> unitCube]"
  "time_delta (sampleWorld m) = 1000"
  "canTakeOwnership (sampleWorld m) e"
  "entityExists (sampleWorld m) 2"
  "entityExists (sampleWorld m) 3"
  "entityExists (sampleWorld m) 7"
  "bodyId (sampleWorld m) e = 100 + e"
  "selection (sampleWorld m) = {}"
  "physicsCalls (sampleWorld m) = []"
  by (simp_all add: sampleWorld_def entityExists_def)

lemma removedWorld_fields [simp]:
  "entities removedWorld = [0, 3, 7]"
  "components removedWorld 0 = {}"
  "components removedWorld 3 = {SceneRoot}"
  "components removedWorld 7 = {Carryable, Rigidbody, Held, HeldRemoteRight}"
  "eid2obj removedWorld 7 = Some unitCube"
  by (simp_all add: removedWorld_def)

lemma removedWorld_held: "truthy (anyEntityWith (removedWorld\<lparr>selection := {}\<rparr>) HeldRemoteRight) = Some 7"
  by (simp add: anyEntityWith_def hasComponent_def truthy_def)


lemma carrying2_world [simp]:
  "entities (world_of carrying2) = [0, 2, 3, 7]"
  "components (world_of carrying2) 0 = {}"
  "components (world_of carrying2) 3 = {SceneRoot}"
  "components (world_of carrying2) 2 = {Carryable, Rigidbody, Owned}"
  "components (world_of carrying2) 7 = {Carryable, Rigidbody, Held, HeldRemoteRight}"
  "eid2obj (world_of carrying2) = [2 \<mapsto> unitCube, 3 \<mapsto> unitCube, 7 \<mapsto> unitCube]"
  "time_delta (world_of carrying2) = 1000"
  by (auto simp add: carrying2_def carryObject_world)

lemma carrying2_sys [simp]:
  "carryState (sys_of carrying2) = CARRYING"
  "activeObject (carryStateData (sys_of carrying2)) = 2"
  "size_v (carryStateData (sys_of carrying2)) = Vector3 1 1 1"
  "center (carryStateData (sys_of carrying2)) = Vector3 0 0 0"
  "\<not> exitedPointerlock (sys_of carrying2)"
  "reachable (sys_of carrying2)"
       apply (simp_all add: carrying2_def carryObject_done(2,3) [where obj = unitCube])
     apply (simp_all add: unitCube_def reachable.carry reachable.init)
  apply (simp add: carryObject_def Let_def clearObjectMenu_def initial_sys_def split: option.split)
  done

lemma carrying2_quiet: "\<not> watchdogFires (world_of carrying2) (sys_of carrying2)"
  by (simp add: watchdogFires_def entityExists_def hasComponent_def)

lemma snapping2_eq:
  "snapping2 = finishTick (Done (enterSnapping (sys_of carrying2))
     ((world_of carrying2)\<lparr>selection := {},
        eid2obj := (eid2obj (world_of carrying2))(2 \<mapsto> unitCube\<lparr>position := Vector3 0 0.6 0.5\<rparr>)\<rparr>))"
  unfolding snapping2_def
  apply (subst carrySystem_carrying)
    apply simp
   apply (rule carrying2_quiet)
  apply (subst carryingTick_toggle [where obj = unitCube])
      apply (simp_all add: noInput_def)
  apply (simp add: plainDeps_def sampleController_def unitCube_def v_sub_def v_multiplyScalar_def
      v_dot_def v_add_def Y_AXIS_def CARRY_DISTANCE_def CARRY_HEIGHT_def)
  done

lemma snapping2_sys [simp]:
  "carryState (sys_of snapping2) = SNAPPING"
  "activeObject (carryStateData (sys_of snapping2)) = 2"
  "snapFace (carryStateData (sys_of snapping2)) = - 1"
  "rotationOffset (carryStateData (sys_of snapping2)) = 0"
  "nudgeOffset (carryStateData (sys_of snapping2)) = NUDGE_START_OFFSET"
  "size_v (carryStateData (sys_of snapping2)) = Vector3 1 1 1"
  "\<not> exitedPointerlock (sys_of snapping2)"
  by (simp_all add: snapping2_eq finishTick_def enterSnapping_def)

lemma snapping2_prevDot [simp]: "prevDot (sys_of snapping2) = 0"
  by (simp add: snapping2_eq enterSnapping_def carrying2_def carryObject_def Let_def
      clearObjectMenu_def initial_sys_def split: option.split)

lemma snapping2_reachable: "reachable (sys_of snapping2)"
  unfolding snapping2_def by (rule reachable.frame) simp

lemma snapping2_world [simp]:
  "entities (world_of snapping2) = [0, 2, 3, 7]"
  "components (world_of snapping2) 0 = {}"
  "components (world_of snapping2) 2 = {Carryable, Rigidbody, Owned}"
  "components (world_of snapping2) 3 = {SceneRoot}"
  "components (world_of snapping2) 7 = {Carryable, Rigidbody, Held, HeldRemoteRight}"
  "eid2obj (world_of snapping2) =
     [2 \<mapsto> unitCube\<lparr>position := Vector3 0 0.6 0.5\<rparr>, 3 \<mapsto> unitCube, 7 \<mapsto> unitCube]"
  "time_delta (world_of snapping2) = 1000"
  by (auto simp add: snapping2_eq)

lemma embedded2_fields [simp]:
  "carryState embedded2 = SNAPPING"
  "activeObject (carryStateData embedded2) = 2"
  "snapFace (carryStateData embedded2) = - 1"
  "rotationOffset (carryStateData embedded2) = 0"
  "nudgeOffset (carryStateData embedded2) = - 0.3"
  "size_v (carryStateData embedded2) = Vector3 1 1 1"
  "\<not> exitedPointerlock embedded2"
  "prevDot embedded2 = 1"
  by (simp_all add: embedded2_def)

lemma snapping2_center [simp]:
  "center (carryStateData (sys_of snapping2)) = Vector3 0 0 0"
  "center (carryStateData embedded2) = Vector3 0 0 0"
  by (simp_all add: embedded2_def snapping2_eq finishTick_def enterSnapping_def)

lemma sample_scene:
  "anyEntityWith (world_of snapping2) SceneRoot = Some 3"
  by (simp add: anyEntityWith_def hasComponent_def)

lemma sample_quiet:
  "\<not> watchdogFires (world_of snapping2) (sys_of snapping2)"
  "\<not> watchdogFires (world_of snapping2) embedded2"
  by (simp_all add: watchdogFires_def entityExists_def hasComponent_def)

lemma sample_snappingHit:
  assumes "\<not> carry_toggle_snap u" and "\<not> carry_drop u"
  shows "snappingHit (world_of snapping2) u floorCamera (sys_of snapping2) floorHit carriedCube"
    and "snappingHit (world_of snapping2) u floorCamera embedded2 floorHit carriedCube"
  using assms
  by (simp_all add: snappingHit_def sample_scene sample_quiet floorCamera_def carriedCube_def)

lemma floor_normal [simp]:
  "hitNormal plainDeps floorHit = Vector3 0 1 0"
  "point floorHit = Vector3 0 0 0"
  by (simp_all add: hitNormal_def plainDeps_def floorHit_def)

lemma pressed2_fields [simp]:
  "carryState (sys_of pressed2) = SNAPPING"
  "activeObject (carryStateData (sys_of pressed2)) = 2"
  "snapFace (carryStateData (sys_of pressed2)) = 0"
  unfolding pressed2_def
  by (simp_all add: snapping_nohit [OF _ sample_quiet(1) _ _ _ _ sample_scene, where obj = carriedCube
        and sceneObj = unitCube] noInput_def noHit_def carriedCube_def)

lemma pressed2_reachable: "reachable (sys_of pressed2)"
  unfolding pressed2_def by (rule reachable.frame) (rule snapping2_reachable)

lemma dropped_state:
  "carryState (sys_of (carrySystem plainDeps (world_of carrying2) (noInput\<lparr>carry_drop := True\<rparr>)
     sampleController noHit (sys_of carrying2))) = NONE"
  by (simp add: carrySystem_carrying [OF _ carrying2_quiet]
      carryingTick_drop [where obj = unitCube] noInput_def)

lemma effectiveSnapFace_floor:
  assumes "snapFace d = - 1"
  shows "effectiveSnapFace d 1 = BOTTOM"
  using assms cos_le_one [of "pi / 4"]
  by (simp add: effectiveSnapFace_def COS_FLOOR_SNAP_ANGLE_eq DEFAULT_FLOOR_FACE_def)

lemma floored2_hit:
  "snappingHit (world_of snapping2) noInput floorCamera (sys_of snapping2) floorHit carriedCube"
  by (rule sample_snappingHit) (simp_all add: noInput_def)

lemma floored2_data:
  "nudgeOffset (carryStateData (sys_of floored2)) = NUDGE_START_OFFSET"
  "rotationOffset (carryStateData (sys_of floored2)) = 0"
  "size_v (carryStateData (sys_of floored2)) = Vector3 1 1 1"
  "center (carryStateData (sys_of floored2)) = Vector3 0 0 0"
  "snapFace (carryStateData (sys_of floored2)) = - 1"
  unfolding floored2_def snapping_data [OF floored2_hit]
  by (simp_all add: noInput_def surfaceStep_def Let_def nudgeStep_def rotateStep_def
      v_dot_def Y_AXIS_def)

lemma floored2_sys [simp]:
  "carryState (sys_of floored2) = SNAPPING"
  "activeObject (carryStateData (sys_of floored2)) = 2"
  "\<not> exitedPointerlock (sys_of floored2)"
  "prevDot (sys_of floored2) = 1"
  unfolding floored2_def
  using snapping_frame_after(1-3) [OF floored2_hit, of plainDeps sampleController]
    frame_records_dot [OF floored2_hit, of plainDeps sampleController]
  by (simp_all add: v_dot_def Y_AXIS_def)

lemma floored2_world [simp]:
  "entities (world_of floored2) = [0, 2, 3, 7]"
  "components (world_of floored2) 0 = {}"
  "components (world_of floored2) 2 = {Carryable, Rigidbody, Owned}"
  "components (world_of floored2) 3 = {SceneRoot}"
  "eid2obj (world_of floored2) 3 = Some unitCube"
  unfolding floored2_def
  using snapping_frame_after(4-5) [OF floored2_hit, of plainDeps sampleController]
    snapping_frame_after(6) [OF floored2_hit, of 3 plainDeps sampleController]
  by simp_all

lemma floored2_cube: "eid2obj (world_of floored2) 2 = Some flooredCube"
proof -
  have range: "- 1 \<le> snapFace (carryStateData (sys_of snapping2)) \<and>
      snapFace (carryStateData (sys_of snapping2)) \<le> 5"
    by simp
  from snapping_placement [OF floored2_hit range, of plainDeps sampleController]
  obtain obj' where
    stored: "eid2obj (world_of floored2) (activeObject (carryStateData (sys_of snapping2))) = Some obj'"
    and placed: "placeObject plainDeps (carryStateData (sys_of floored2))
       (effectiveSnapFace (carryStateData (sys_of floored2))
          (v_dot (hitNormal plainDeps floorHit) Y_AXIS))
       (hitNormal plainDeps floorHit) (point floorHit)
       (carriedCube\<lparr>scale := v_max (scale (scaleStep noInput (world_of snapping2) carriedCube)) MIN_SCALE,
            quaternion := lookAtRotation plainDeps (hitNormal plainDeps floorHit) ZERO Y_AXIS\<rparr>) = Some obj'"
    unfolding floored2_def by metis
  have face: "effectiveSnapFace (carryStateData (sys_of floored2))
      (v_dot (hitNormal plainDeps floorHit) Y_AXIS) = BOTTOM"
    using effectiveSnapFace_floor [OF floored2_data(5)] by (simp add: v_dot_def Y_AXIS_def)
  have tables: "ROT_AXIS_FOR_FACE BOTTOM = Some Y_AXIS" "AXIS_NAME_FOR_FACE BOTTOM = Some Axis_y"
    "QUAT_FOR_FACE plainDeps BOTTOM = Some (setFromAxisAngle plainDeps X_AXIS (pi / 2))"
    by (simp_all add: ROT_AXIS_FOR_FACE_def AXIS_NAME_FOR_FACE_def QUAT_FOR_FACE_def SnapFace_defs)
  have "obj' = flooredCube"
    using placed unfolding face
    by (simp add: placeObject_def tables Let_def floored2_data offsetDistance_def
        NUDGE_START_OFFSET_def scaleStep_def noInput_def carriedCube_def unitCube_def
        flooredCube_def v_max_def MIN_SCALE_def component_def v_multiply_def v_sub_def
        v_addScaledVector_def)
  with stored show ?thesis by simp
qed

lemma wall_normal [simp]:
  "hitNormal plainDeps wallHit = Vector3 0 0 1"
  by (simp add: hitNormal_def plainDeps_def wallHit_def)

lemma floored2_wall:
  assumes "\<not> carry_toggle_snap u" and "\<not> carry_drop u"
  shows "snappingHit (world_of floored2) u wallCamera (sys_of floored2) wallHit flooredCube"
  using assms
  by (simp add: snappingHit_def watchdogFires_def entityExists_def hasComponent_def
      anyEntityWith_def wallCamera_def floored2_cube)

lemma sharedBodyWorld_fields [simp]:
  "entityExists sharedBodyWorld 7"
  "bodyId sharedBodyWorld e = 0"
  "physicsCalls sharedBodyWorld = physicsCalls (world_of carrying2)"
  by (simp_all add: sharedBodyWorld_def entityExists_def)

lemma carrying2_bodies [simp]:
  "bodyId (world_of carrying2) e = 100 + e"
  "entityExists (world_of carrying2) 7"
  "\<not> entityExists (world_of carrying2) 5"
  by (simp_all add: carrying2_def carryObject_world2 entityExists_def carryObject_world)

subsection \<open>The watchdog\<close>




subsection \<open>The invariant of the active object\<close>

text \<open>
  Claim C2. In every reachable state, \<open>activeObject\<close> is \<open>0\<close> whenever \<open>carryState\<close> is NONE;
  and each of \<open>clearObjectMenu\<close>, \<open>dropObject\<close> and the watchdog reset sets the state to NONE
  and clears \<open>activeObject\<close> in the same step.
\<close>

theorem active_object_cleared:
  "(reachable s \<longrightarrow> carryState s = NONE \<longrightarrow> activeObject (carryStateData s) = 0) \<and>
   (carryState (clearObjectMenu s) = NONE \<and> activeObject (carryStateData (clearObjectMenu s)) = 0) \<and>
   (carryState (fst (dropObject D withGravity s world)) = NONE \<and>
    activeObject (carryStateData (fst (dropObject D withGravity s world))) = 0) \<and>
   (watchdogFires world s \<longrightarrow>
      carryState (watchdog world s) = NONE \<and> activeObject (carryStateData (watchdog world s)) = 0)"
  using reachable_cleared [of s] by simp

text \<open>The invariant at the state left by dropping entity 2, and the watchdog reset at the removal of entity 2.\<close>

theorem active_object_cleared_witness:
  "reachable (sys_of (carrySystem plainDeps (world_of carrying2) (noInput\<lparr>carry_drop := True\<rparr>)
     sampleController noHit (sys_of carrying2))) \<and>
   carryState (sys_of (carrySystem plainDeps (world_of carrying2) (noInput\<lparr>carry_drop := True\<rparr>)
     sampleController noHit (sys_of carrying2))) = NONE \<and>
   activeObject (carryStateData (sys_of (carrySystem plainDeps (world_of carrying2)
     (noInput\<lparr>carry_drop := True\<rparr>) sampleController noHit (sys_of carrying2)))) = 0 \<and>
   watchdogFires removedWorld (sys_of carrying2) \<and>
   carryState (watchdog removedWorld (sys_of carrying2)) = NONE \<and>
   activeObject (carryStateData (watchdog removedWorld (sys_of carrying2))) = 0"
proof -
  let ?s = "sys_of (carrySystem plainDeps (world_of carrying2) (noInput\<lparr>carry_drop := True\<rparr>)
     sampleController noHit (sys_of carrying2))"
  have r: "reachable ?s"
    by (rule reachable.frame) simp
  have fires: "watchdogFires removedWorld (sys_of carrying2)"
    by (simp add: watchdogFires_def entityExists_def)
  from active_object_cleared [of ?s plainDeps True removedWorld] r dropped_state
  have "activeObject (carryStateData ?s) = 0" by simp
  moreover from active_object_cleared [of "sys_of carrying2" plainDeps True removedWorld] fires
  have "carryState (watchdog removedWorld (sys_of carrying2)) = NONE \<and>
     activeObject (carryStateData (watchdog removedWorld (sys_of carrying2))) = 0"
    by blast
  ultimately show ?thesis
    using r dropped_state fires by blast
qed

subsection \<open>The rotation rate\<close>

text \<open>
  Claim C3, on the code: a snapping frame of one second with rotate-cw active adds a
  quarter turn, \<open>pi / 2\<close>, to \<open>rotationOffset\<close>, not the four turns \<open>(4 * 2 pi / 1000) * delta\<close>
  of the claim: \<open>ROTATION_SPEED\<close> divides by \<open>ROTATIONS_PER_SECOND\<close>.
\<close>

theorem rotation_rate_at_one_second:
  "rotationOffset (carryStateData (sys_of (carrySystem plainDeps (world_of snapping2)
     (noInput\<lparr>carry_rotate_cw := True\<rparr>) sampleController noHit (sys_of snapping2)))) -
   rotationOffset (carryStateData (sys_of snapping2)) = pi / 2 \<and>
   time_delta (world_of snapping2) = 1000 \<and>
   pi / 2 \<noteq> (4 * (2 * pi) / 1000) * time_delta (world_of snapping2)"
proof -
  have "carryStateData (sys_of (carrySystem plainDeps (world_of snapping2)
     (noInput\<lparr>carry_rotate_cw := True\<rparr>) sampleController noHit (sys_of snapping2))) =
     carryStateData (rotateStep (noInput\<lparr>carry_rotate_cw := True\<rparr>) (world_of snapping2)
       (sys_of snapping2))"
    by (simp add: snapping_nohit [OF _ sample_quiet(1) _ _ _ _ sample_scene, where obj = carriedCube
        and sceneObj = unitCube] noInput_def noHit_def carriedCube_def)
  moreover have "rotationOffset (carryStateData (rotateStep (noInput\<lparr>carry_rotate_cw := True\<rparr>)
      (world_of snapping2) (sys_of snapping2))) = pi / 2"
    by (simp add: rotateStep_def noInput_def ROTATION_SPEED_def ROTATIONS_PER_SECOND_def)
  moreover have "pi / 2 \<noteq> 8 * pi"
    using pi_gt_zero by simp
  ultimately show ?thesis
    by simp
qed

subsection \<open>Cycling the snap face\<close>

text \<open>
  Claim C4, amended. From every snap face in \<open>0..5\<close>, six presses of change-snap-face
  return to the starting face; from AUTO they lead to BACK.
\<close>

theorem six_presses:
  "(0 \<le> snapFace (carryStateData s) \<and> snapFace (carryStateData s) \<le> 5 \<longrightarrow>
      snapFace (carryStateData ((changeSnapFace ^^ 6) s)) = snapFace (carryStateData s)) \<and>
   (snapFace (carryStateData s) = AUTO \<longrightarrow>
      snapFace (carryStateData ((changeSnapFace ^^ 6) s)) = BACK)"
proof (intro conjI impI)
  assume "0 \<le> snapFace (carryStateData s) \<and> snapFace (carryStateData s) \<le> 5"
  then have "snapFace (carryStateData s) = 0 \<or> snapFace (carryStateData s) = 1 \<or>
      snapFace (carryStateData s) = 2 \<or> snapFace (carryStateData s) = 3 \<or>
      snapFace (carryStateData s) = 4 \<or> snapFace (carryStateData s) = 5"
    by arith
  then show "snapFace (carryStateData ((changeSnapFace ^^ 6) s)) = snapFace (carryStateData s)"
    by (elim disjE) (simp_all add: funpow6 smod6_numerals)
next
  assume "snapFace (carryStateData s) = AUTO"
  then show "snapFace (carryStateData ((changeSnapFace ^^ 6) s)) = BACK"
    by (simp add: funpow6 smod6_numerals SnapFace_defs)
qed

text \<open>Six presses from LEFT, the face after one press, and from AUTO.\<close>

theorem six_presses_witness:
  "(0 \<le> snapFace (carryStateData (sys_of pressed2)) \<and>
    snapFace (carryStateData (sys_of pressed2)) \<le> 5) \<and>
   snapFace (carryStateData ((changeSnapFace ^^ 6) (sys_of pressed2))) =
     snapFace (carryStateData (sys_of pressed2)) \<and>
   snapFace (carryStateData (sys_of snapping2)) = AUTO \<and>
   snapFace (carryStateData ((changeSnapFace ^^ 6) (sys_of snapping2))) = BACK"
proof -
  have a: "0 \<le> snapFace (carryStateData (sys_of pressed2)) \<and>
      snapFace (carryStateData (sys_of pressed2)) \<le> 5"
    by simp
  have b: "snapFace (carryStateData (sys_of snapping2)) = AUTO"
    by (simp add: AUTO_def)
  from six_presses [of "sys_of pressed2"] six_presses [of "sys_of snapping2"] a b
  show ?thesis by blast
qed

text \<open>
  Claim C4 as stated fails for AUTO: six presses from the snapping state just entered end
  on BACK.
\<close>

theorem six_presses_counterexample:
  "snapFace (carryStateData (sys_of snapping2)) = AUTO \<and>
   snapFace (carryStateData ((changeSnapFace ^^ 6) (sys_of snapping2))) = BACK \<and>
   snapFace (carryStateData ((changeSnapFace ^^ 6) (sys_of snapping2))) \<noteq>
     snapFace (carryStateData (sys_of snapping2))"
  by (simp add: funpow6 smod6_numerals SnapFace_defs)

subsection \<open>Held markers after carryObject\<close>

text \<open>
  Claim C5, on the code: \<open>carryObject\<close> on an entity held by the right hand removes \<open>Held\<close>
  and leaves \<open>HeldHandRight\<close> on the entity; the call removes \<open>HeldRemoteRight\<close> twice and
  never \<open>HeldHandRight\<close>.
\<close>

theorem carryObject_leaves_HeldHandRight:
  "carryObject plainDeps 7 initial_sys (sampleWorld HeldHandRight) =
     Done (sys_of (carryObject plainDeps 7 initial_sys (sampleWorld HeldHandRight)))
       (world_of (carryObject plainDeps 7 initial_sys (sampleWorld HeldHandRight))) \<and>
   hasComponent (sampleWorld HeldHandRight) HeldHandRight 7 \<and>
   hasComponent (world_of (carryObject plainDeps 7 initial_sys (sampleWorld HeldHandRight)))
     HeldHandRight 7 \<and>
   \<not> hasComponent (world_of (carryObject plainDeps 7 initial_sys (sampleWorld HeldHandRight)))
     Held 7"
proof -
  have "entityExists (sampleWorld HeldHandRight) 7"
    and "eid2obj (sampleWorld HeldHandRight) 7 = Some unitCube"
    by simp_all
  from carryObject_done(1) [OF this, of plainDeps initial_sys] show ?thesis
    by (simp add: hasComponent_def carryObject_world)
qed

subsection \<open>The standoff distance\<close>

text \<open>
  Claim C6. In a snapping frame with a hit, the object is put at the hit point, corrected by
  the rotated and scaled box centre, and advanced along the normal by the standoff
  distance: with the extent and the scale taken on the measurement axis of the effective
  face, \<open>(extent / 2 + nudgeOffset) * scale\<close> for a negative nudge offset and
  \<open>(extent / 2) * scale + nudgeOffset\<close> otherwise. The active entity is selected when the
  nudge offset is negative at the start of the frame. For a unit box at unit scale whose
  nudge offset is \<open>-0.3\<close> throughout the frame the distance is \<open>0.2\<close>, and the entity is
  selected.
\<close>

theorem standoff_distance:
  assumes "snappingHit world userinput camera s hit obj"
    and "- 1 \<le> snapFace (carryStateData s) \<and> snapFace (carryStateData s) \<le> 5"
  shows "let r = carrySystem D world userinput characterController camera s;
             d = carryStateData (sys_of r);
             dir = hitNormal D hit
         in \<exists>obj' axisName.
              eid2obj (world_of r) (activeObject (carryStateData s)) = Some obj' \<and>
              AXIS_NAME_FOR_FACE (effectiveSnapFace d (v_dot dir Y_AXIS)) = Some axisName \<and>
              position obj' =
                v_addScaledVector
                  (v_sub (point hit)
                     (applyQuaternion D (v_multiply (center d) (scale obj')) (quaternion obj')))
                  dir
                  (if nudgeOffset d < 0
                   then (component (size_v d) axisName / 2 + nudgeOffset d) * component (scale obj') axisName
                   else component (size_v d) axisName / 2 * component (scale obj') axisName + nudgeOffset d) \<and>
              (nudgeOffset (carryStateData s) < 0 \<longrightarrow>
                 activeObject (carryStateData s) \<in> selection (world_of r)) \<and>
              (size_v d = Vector3 1 1 1 \<and> scale obj' = Vector3 1 1 1 \<and>
               nudgeOffset (carryStateData s) = - 0.3 \<and> nudgeOffset d = - 0.3 \<longrightarrow>
                 position obj' =
                   v_addScaledVector
                     (v_sub (point hit)
                        (applyQuaternion D (v_multiply (center d) (scale obj')) (quaternion obj')))
                     dir 0.2 \<and>
                 activeObject (carryStateData s) \<in> selection (world_of r))"
proof -
  from assms obtain obj' axisName where
    "eid2obj (world_of (carrySystem D world userinput characterController camera s))
       (activeObject (carryStateData s)) = Some obj'"
    "AXIS_NAME_FOR_FACE (effectiveSnapFace
          (carryStateData (sys_of (carrySystem D world userinput characterController camera s)))
          (v_dot (hitNormal D hit) Y_AXIS)) = Some axisName"
    "position obj' =
       v_addScaledVector
         (v_sub (point hit)
            (applyQuaternion D
               (v_multiply
                  (center (carryStateData
                     (sys_of (carrySystem D world userinput characterController camera s))))
                  (scale obj'))
               (quaternion obj')))
         (hitNormal D hit)
         (offsetDistance
            (carryStateData (sys_of (carrySystem D world userinput characterController camera s)))
            (component
               (size_v (carryStateData
                  (sys_of (carrySystem D world userinput characterController camera s))))
               axisName)
            (component (scale obj') axisName))"
    "selection (world_of (carrySystem D world userinput characterController camera s)) =
       (if nudgeOffset (carryStateData s) < 0 then {activeObject (carryStateData s)} else {})"
    by (rule snapping_placement [where D = D and characterController = characterController])
  then show ?thesis
    unfolding Let_def
    by (intro exI [of _ obj'] exI [of _ axisName]) (simp add: offsetDistance_def)
qed

text \<open>The embedded cube on the floor: it is put 0.2 above the hit point and selected.\<close>

theorem standoff_distance_witness:
  "snappingHit (world_of snapping2) noInput floorCamera embedded2 floorHit carriedCube \<and>
   (- 1 \<le> snapFace (carryStateData embedded2) \<and> snapFace (carryStateData embedded2) \<le> 5) \<and>
   (\<exists>obj'. eid2obj (world_of (carrySystem plainDeps (world_of snapping2) noInput sampleController
        floorCamera embedded2)) 2 = Some obj' \<and> position obj' = Vector3 0 0.2 0) \<and>
   2 \<in> selection (world_of (carrySystem plainDeps (world_of snapping2) noInput sampleController
        floorCamera embedded2))"
proof -
  let ?r = "carrySystem plainDeps (world_of snapping2) noInput sampleController floorCamera embedded2"
  let ?d = "carryStateData (sys_of ?r)"
  have h1: "snappingHit (world_of snapping2) noInput floorCamera embedded2 floorHit carriedCube"
    by (rule sample_snappingHit) (simp_all add: noInput_def)
  have h2: "- 1 \<le> snapFace (carryStateData embedded2) \<and> snapFace (carryStateData embedded2) \<le> 5"
    by simp
  have d: "nudgeOffset ?d = - 0.3" "size_v ?d = Vector3 1 1 1" "center ?d = Vector3 0 0 0"
    unfolding snapping_data [OF h1]
    by (simp_all add: noInput_def surfaceStep_def Let_def nudgeStep_def
        rotateStep_def v_dot_def Y_AXIS_def)
  from snapping_placement [OF h1 h2, of plainDeps sampleController]
  obtain obj2 where stored2: "eid2obj (world_of ?r) (activeObject (carryStateData embedded2)) = Some obj2"
    and "scale obj2 = v_max (scale (scaleStep noInput (world_of snapping2) carriedCube)) MIN_SCALE"
    by metis
  then have unit: "scale obj2 = Vector3 1 1 1"
    by (simp add: scaleStep_def noInput_def carriedCube_def unitCube_def v_max_def MIN_SCALE_def)
  from standoff_distance [OF h1 h2, of plainDeps sampleController, unfolded Let_def]
  obtain obj' where stored: "eid2obj (world_of ?r) (activeObject (carryStateData embedded2)) = Some obj'"
    and scenario: "size_v ?d = Vector3 1 1 1 \<and> scale obj' = Vector3 1 1 1 \<and>
      nudgeOffset (carryStateData embedded2) = - 0.3 \<and> nudgeOffset ?d = - 0.3 \<longrightarrow>
      position obj' =
        v_addScaledVector
          (v_sub (point floorHit)
             (applyQuaternion plainDeps (v_multiply (center ?d) (scale obj')) (quaternion obj')))
          (hitNormal plainDeps floorHit) 0.2 \<and>
      activeObject (carryStateData embedded2) \<in> selection (world_of ?r)"
    by blast
  from stored stored2 have "obj' = obj2" by simp
  with scenario d unit have
    "position obj' =
        v_addScaledVector
          (v_sub (point floorHit)
             (applyQuaternion plainDeps (v_multiply (center ?d) (scale obj')) (quaternion obj')))
          (hitNormal plainDeps floorHit) 0.2"
    and sel: "2 \<in> selection (world_of ?r)"
    by simp_all
  then have "position obj' = Vector3 0 0.2 0"
    using d unit \<open>obj' = obj2\<close>
    by (simp add: v_multiply_def v_sub_def v_addScaledVector_def)
  with stored sel h1 h2 show ?thesis
    by auto
qed

subsection \<open>The effective snap face\<close>

text \<open>
  Claim C7. In a snapping frame with a hit, the object is placed for the face that is the
  pinned \<open>snapFace\<close> when that is not AUTO, and otherwise BOTTOM or TOP when the normal's dot
  product with world-up is at least \<open>cos 45\<degree>\<close> in absolute value (BOTTOM if the dot is
  positive, TOP if not), and BACK in the remaining case. On a surface facing straight up,
  with AUTO, a unit box at unit scale and the nudge offset at its start value, the face is
  the floor face and the standoff distance \<open>0.5 + NUDGE_START_OFFSET\<close>.
\<close>

theorem effective_face:
  assumes "snappingHit world userinput camera s hit obj"
    and "- 1 \<le> snapFace (carryStateData s) \<and> snapFace (carryStateData s) \<le> 5"
  shows "let r = carrySystem D world userinput characterController camera s;
             d = carryStateData (sys_of r);
             dir = hitNormal D hit;
             dot = v_dot dir Y_AXIS;
             face = (if snapFace d \<noteq> AUTO then snapFace d
                     else if cos (pi / 4) \<le> \<bar>dot\<bar> then (if 0 < dot then BOTTOM else TOP)
                     else BACK)
         in \<exists>obj'.
              eid2obj (world_of r) (activeObject (carryStateData s)) = Some obj' \<and>
              placeObject D d face dir (point hit)
                (obj\<lparr>scale := v_max (scale (scaleStep userinput world obj)) MIN_SCALE,
                     quaternion := lookAtRotation D dir ZERO Y_AXIS\<rparr>) = Some obj' \<and>
              (dir = Vector3 0 1 0 \<and> snapFace d = AUTO \<and> size_v d = Vector3 1 1 1 \<and>
               scale obj' = Vector3 1 1 1 \<and> nudgeOffset d = NUDGE_START_OFFSET \<longrightarrow>
                 face = DEFAULT_FLOOR_FACE \<and>
                 position obj' =
                   v_addScaledVector
                     (v_sub (point hit)
                        (applyQuaternion D (v_multiply (center d) (scale obj')) (quaternion obj')))
                     dir (0.5 + NUDGE_START_OFFSET))"
proof -
  let ?r = "carrySystem D world userinput characterController camera s"
  let ?d = "carryStateData (sys_of ?r)"
  let ?dir = "hitNormal D hit"
  let ?dot = "v_dot ?dir Y_AXIS"
  have face: "(if snapFace ?d \<noteq> AUTO then snapFace ?d
       else if cos (pi / 4) \<le> \<bar>?dot\<bar> then (if 0 < ?dot then BOTTOM else TOP)
       else BACK) = effectiveSnapFace ?d ?dot"
    by (simp add: effectiveSnapFace_def COS_FLOOR_SNAP_ANGLE_eq DEFAULT_FLOOR_FACE_def
        DEFAULT_CEIL_FACE_def DEFAULT_WALL_FACE_def AUTO_def)
  from assms obtain obj' axisName where
    stored: "eid2obj (world_of ?r) (activeObject (carryStateData s)) = Some obj'"
    and placed: "placeObject D ?d (effectiveSnapFace ?d ?dot) ?dir (point hit)
       (obj\<lparr>scale := v_max (scale (scaleStep userinput world obj)) MIN_SCALE,
            quaternion := lookAtRotation D ?dir ZERO Y_AXIS\<rparr>) = Some obj'"
    and pos: "position obj' =
       v_addScaledVector
         (v_sub (point hit)
            (applyQuaternion D (v_multiply (center ?d) (scale obj')) (quaternion obj')))
         ?dir
         (offsetDistance ?d (component (size_v ?d) axisName) (component (scale obj') axisName))"
    by (rule snapping_placement [where D = D and characterController = characterController])
  have scenario: "effectiveSnapFace ?d ?dot = DEFAULT_FLOOR_FACE \<and>
      position obj' =
        v_addScaledVector
          (v_sub (point hit)
             (applyQuaternion D (v_multiply (center ?d) (scale obj')) (quaternion obj')))
          ?dir (0.5 + NUDGE_START_OFFSET)"
    if up: "?dir = Vector3 0 1 0" and auto: "snapFace ?d = AUTO"
      and box: "size_v ?d = Vector3 1 1 1" and unit: "scale obj' = Vector3 1 1 1"
      and eps: "nudgeOffset ?d = NUDGE_START_OFFSET"
  proof
    have "?dot = 1"
      by (simp add: up v_dot_def Y_AXIS_def)
    then show "effectiveSnapFace ?d ?dot = DEFAULT_FLOOR_FACE"
      using auto cos_le_one [of "pi / 4"]
      by (simp add: effectiveSnapFace_def COS_FLOOR_SNAP_ANGLE_eq AUTO_def)
    have "offsetDistance ?d (component (size_v ?d) axisName) (component (scale obj') axisName) =
        0.5 + NUDGE_START_OFFSET"
      by (simp add: offsetDistance_def box unit eps NUDGE_START_OFFSET_def)
    with pos show "position obj' =
        v_addScaledVector
          (v_sub (point hit)
             (applyQuaternion D (v_multiply (center ?d) (scale obj')) (quaternion obj')))
          ?dir (0.5 + NUDGE_START_OFFSET)"
      by (simp only:)
  qed
  show ?thesis
    unfolding Let_def face
    using stored placed scenario by blast
qed

text \<open>The cube on the floor with AUTO: it is put 0.501 above the hit point.\<close>

theorem effective_face_witness:
  "snappingHit (world_of snapping2) noInput floorCamera (sys_of snapping2) floorHit carriedCube \<and>
   (- 1 \<le> snapFace (carryStateData (sys_of snapping2)) \<and>
    snapFace (carryStateData (sys_of snapping2)) \<le> 5) \<and>
   (\<exists>obj'. eid2obj (world_of (carrySystem plainDeps (world_of snapping2) noInput sampleController
        floorCamera (sys_of snapping2))) 2 = Some obj' \<and>
      position obj' = Vector3 0 0.501 0)"
proof -
  let ?r = "carrySystem plainDeps (world_of snapping2) noInput sampleController floorCamera
    (sys_of snapping2)"
  let ?d = "carryStateData (sys_of ?r)"
  have h1: "snappingHit (world_of snapping2) noInput floorCamera (sys_of snapping2) floorHit carriedCube"
    by (rule sample_snappingHit) (simp_all add: noInput_def)
  have h2: "- 1 \<le> snapFace (carryStateData (sys_of snapping2)) \<and>
      snapFace (carryStateData (sys_of snapping2)) \<le> 5"
    by simp
  have d: "nudgeOffset ?d = NUDGE_START_OFFSET" "size_v ?d = Vector3 1 1 1"
    "center ?d = Vector3 0 0 0" "snapFace ?d = AUTO"
    unfolding snapping_data [OF h1]
    by (simp_all add: noInput_def surfaceStep_def Let_def nudgeStep_def
        rotateStep_def v_dot_def Y_AXIS_def AUTO_def)
  from effective_face [OF h1 h2, of plainDeps sampleController, unfolded Let_def]
  obtain obj' where stored: "eid2obj (world_of ?r) (activeObject (carryStateData (sys_of snapping2))) = Some obj'"
    and placed: "placeObject plainDeps ?d
        (if snapFace ?d \<noteq> AUTO then snapFace ?d
         else if cos (pi / 4) \<le> \<bar>v_dot (hitNormal plainDeps floorHit) Y_AXIS\<bar>
         then (if 0 < v_dot (hitNormal plainDeps floorHit) Y_AXIS then BOTTOM else TOP)
         else BACK)
        (hitNormal plainDeps floorHit) (point floorHit)
        (carriedCube\<lparr>scale := v_max (scale (scaleStep noInput (world_of snapping2) carriedCube)) MIN_SCALE,
           quaternion := lookAtRotation plainDeps (hitNormal plainDeps floorHit) ZERO Y_AXIS\<rparr>) = Some obj'"
    and scenario: "hitNormal plainDeps floorHit = Vector3 0 1 0 \<and> snapFace ?d = AUTO \<and>
      size_v ?d = Vector3 1 1 1 \<and> scale obj' = Vector3 1 1 1 \<and>
      nudgeOffset ?d = NUDGE_START_OFFSET \<longrightarrow>
      (if snapFace ?d \<noteq> AUTO then snapFace ?d
         else if cos (pi / 4) \<le> \<bar>v_dot (hitNormal plainDeps floorHit) Y_AXIS\<bar>
         then (if 0 < v_dot (hitNormal plainDeps floorHit) Y_AXIS then BOTTOM else TOP)
         else BACK) = DEFAULT_FLOOR_FACE \<and>
      position obj' =
        v_addScaledVector
          (v_sub (point floorHit)
             (applyQuaternion plainDeps (v_multiply (center ?d) (scale obj')) (quaternion obj')))
          (hitNormal plainDeps floorHit) (0.5 + NUDGE_START_OFFSET)"
    by blast
  have unit: "scale obj' = Vector3 1 1 1"
    using placed
    by (auto simp add: placeObject_def Let_def scaleStep_def noInput_def carriedCube_def
        unitCube_def v_max_def MIN_SCALE_def split: option.splits)
  with scenario d have "position obj' =
        v_addScaledVector
          (v_sub (point floorHit)
             (applyQuaternion plainDeps (v_multiply (center ?d) (scale obj')) (quaternion obj')))
          (hitNormal plainDeps floorHit) (0.5 + NUDGE_START_OFFSET)"
    by simp
  then have "position obj' = Vector3 0 0.501 0"
    using d unit
    by (simp add: v_multiply_def v_sub_def v_addScaledVector_def NUDGE_START_OFFSET_def)
  with stored h1 h2 show ?thesis
    by auto
qed

subsection \<open>The discontinuity reset\<close>

text \<open>
  Claim C8. A snapping frame with a hit stores the dot product of the surface normal with
  world-up in \<open>prevDot\<close>, and ends with \<open>rotationOffset = 0\<close> and
  \<open>nudgeOffset = NUDGE_START_OFFSET\<close> when that dot product differs from the stored one by
  more than \<open>0.2\<close>. So of two consecutive snapping frames with hits whose dot products
  differ by more than \<open>0.2\<close>, the second ends with both offsets reset.
\<close>

theorem discontinuity_reset:
  assumes "snappingHit world userinput camera s hit obj"
  shows "prevDot (sys_of (carrySystem D world userinput characterController camera s)) =
       v_dot (hitNormal D hit) Y_AXIS \<and>
     (\<bar>v_dot (hitNormal D hit) Y_AXIS - prevDot s\<bar> > 0.2 \<longrightarrow>
        rotationOffset (carryStateData
          (sys_of (carrySystem D world userinput characterController camera s))) = 0 \<and>
        nudgeOffset (carryStateData
          (sys_of (carrySystem D world userinput characterController camera s))) =
          NUDGE_START_OFFSET) \<and>
     (snappingHit world' userinput' camera'
        (sys_of (carrySystem D world userinput characterController camera s)) hit' obj' \<and>
      \<bar>v_dot (hitNormal D hit') Y_AXIS - v_dot (hitNormal D hit) Y_AXIS\<bar> > 0.2 \<longrightarrow>
        rotationOffset (carryStateData
          (sys_of (carrySystem D world' userinput' characterController' camera'
            (sys_of (carrySystem D world userinput characterController camera s))))) = 0 \<and>
        nudgeOffset (carryStateData
          (sys_of (carrySystem D world' userinput' characterController' camera'
            (sys_of (carrySystem D world userinput characterController camera s))))) =
          NUDGE_START_OFFSET)"
proof (intro conjI impI)
  show stored: "prevDot (sys_of (carrySystem D world userinput characterController camera s)) =
      v_dot (hitNormal D hit) Y_AXIS"
    using assms by (rule frame_records_dot)
  {
    assume "\<bar>v_dot (hitNormal D hit) Y_AXIS - prevDot s\<bar> > 0.2"
    with assms show "rotationOffset (carryStateData
        (sys_of (carrySystem D world userinput characterController camera s))) = 0"
      and "nudgeOffset (carryStateData
        (sys_of (carrySystem D world userinput characterController camera s))) =
        NUDGE_START_OFFSET"
      using frame_reset by blast+
  }
  {
    assume second: "snappingHit world' userinput' camera'
        (sys_of (carrySystem D world userinput characterController camera s)) hit' obj' \<and>
      \<bar>v_dot (hitNormal D hit') Y_AXIS - v_dot (hitNormal D hit) Y_AXIS\<bar> > 0.2"
    then have jump: "\<bar>v_dot (hitNormal D hit') Y_AXIS -
        prevDot (sys_of (carrySystem D world userinput characterController camera s))\<bar> > 0.2"
      by (simp only: stored)
    from second have next_hit: "snappingHit world' userinput' camera'
        (sys_of (carrySystem D world userinput characterController camera s)) hit' obj'"
      by blast
    from frame_reset [OF next_hit jump, of characterController']
    show "rotationOffset (carryStateData
          (sys_of (carrySystem D world' userinput' characterController' camera'
            (sys_of (carrySystem D world userinput characterController camera s))))) = 0"
      and "nudgeOffset (carryStateData
          (sys_of (carrySystem D world' userinput' characterController' camera'
            (sys_of (carrySystem D world userinput characterController camera s))))) =
          NUDGE_START_OFFSET"
      by blast+
  }
qed

text \<open>
  A frame on the floor followed by a frame on a wall, the second with rotation and nudge
  input: the dot product falls from 1 to 0 and both offsets are reset.
\<close>

theorem discontinuity_reset_witness:
  "snappingHit (world_of snapping2) noInput floorCamera (sys_of snapping2) floorHit carriedCube \<and>
   prevDot (sys_of floored2) = 1 \<and>
   snappingHit (world_of floored2) (noInput\<lparr>carry_rotate_cw := True, carry_snap_nudge := Some 1\<rparr>)
     wallCamera (sys_of floored2) wallHit flooredCube \<and>
   \<bar>v_dot (hitNormal plainDeps wallHit) Y_AXIS - v_dot (hitNormal plainDeps floorHit) Y_AXIS\<bar> > 0.2 \<and>
   rotationOffset (carryStateData (sys_of (carrySystem plainDeps (world_of floored2)
     (noInput\<lparr>carry_rotate_cw := True, carry_snap_nudge := Some 1\<rparr>)
     sampleController wallCamera (sys_of floored2)))) = 0 \<and>
   nudgeOffset (carryStateData (sys_of (carrySystem plainDeps (world_of floored2)
     (noInput\<lparr>carry_rotate_cw := True, carry_snap_nudge := Some 1\<rparr>)
     sampleController wallCamera (sys_of floored2)))) = NUDGE_START_OFFSET"
proof -
  let ?u = "noInput\<lparr>carry_rotate_cw := True, carry_snap_nudge := Some 1\<rparr>"
  have h2: "snappingHit (world_of floored2) ?u wallCamera (sys_of floored2) wallHit flooredCube"
    by (rule floored2_wall) (simp_all add: noInput_def)
  have h3: "\<bar>v_dot (hitNormal plainDeps wallHit) Y_AXIS -
      v_dot (hitNormal plainDeps floorHit) Y_AXIS\<bar> > 0.2"
    by (simp add: v_dot_def Y_AXIS_def)
  from discontinuity_reset [OF floored2_hit, of plainDeps sampleController "world_of floored2" ?u
      wallCamera wallHit flooredCube sampleController, folded floored2_def] h2 h3
  have "rotationOffset (carryStateData (sys_of (carrySystem plainDeps (world_of floored2) ?u
       sampleController wallCamera (sys_of floored2)))) = 0 \<and>
     nudgeOffset (carryStateData (sys_of (carrySystem plainDeps (world_of floored2) ?u
       sampleController wallCamera (sys_of floored2)))) = NUDGE_START_OFFSET"
    by blast
  with floored2_hit h2 h3 show ?thesis
    by simp
qed

subsection \<open>The snap face invariant\<close>

text \<open>
  Claim C9. In every reachable state \<open>snapFace\<close> lies in \<open>-1..5\<close>. A press of
  change-snap-face leaves it in \<open>0..5\<close>, for the step itself and for the snapping frame that
  processes the press. A frame that turns a concrete face back into AUTO is one with
  toggle-snap pressed that ends in SNAPPING; \<open>carryObject\<close>, \<open>clearObjectMenu\<close> and the
  pointer-lock listener leave \<open>snapFace\<close> alone.
\<close>

theorem snapFace_range:
  "(reachable s \<longrightarrow> - 1 \<le> snapFace (carryStateData s) \<and> snapFace (carryStateData s) \<le> 5) \<and>
   (reachable s \<longrightarrow>
      0 \<le> snapFace (carryStateData (changeSnapFace s)) \<and>
      snapFace (carryStateData (changeSnapFace s)) \<le> 5) \<and>
   (reachable s \<and> carryState s = SNAPPING \<and> \<not> watchdogFires world s \<and>
    eid2obj world (activeObject (carryStateData s)) \<noteq> None \<and>
    carry_change_snap_face userinput \<and> \<not> carry_toggle_snap userinput \<and>
    \<not> carry_drop userinput \<and> \<not> exitedPointerlock s \<longrightarrow>
      0 \<le> snapFace (carryStateData
             (sys_of (carrySystem D world userinput characterController camera s))) \<and>
      snapFace (carryStateData
             (sys_of (carrySystem D world userinput characterController camera s))) \<le> 5) \<and>
   (reachable s \<and> snapFace (carryStateData s) \<noteq> AUTO \<and>
    snapFace (carryStateData
      (sys_of (carrySystem D world userinput characterController camera s))) = AUTO \<longrightarrow>
      carry_toggle_snap userinput \<and>
      carryState (sys_of (carrySystem D world userinput characterController camera s)) = SNAPPING) \<and>
   snapFace (carryStateData (sys_of (carryObject D eid s world))) = snapFace (carryStateData s) \<and>
   snapFace (carryStateData (clearObjectMenu s)) = snapFace (carryStateData s) \<and>
   snapFace (carryStateData (onPointerlockchange b s)) = snapFace (carryStateData s)"
proof (intro conjI impI)
  assume "reachable s"
  then show "- 1 \<le> snapFace (carryStateData s)" and "snapFace (carryStateData s) \<le> 5"
    by (simp_all add: reachable_face)
next
  assume "reachable s"
  then show "0 \<le> snapFace (carryStateData (changeSnapFace s))"
    and "snapFace (carryStateData (changeSnapFace s)) \<le> 5"
    using cycle_in_range [of "snapFace (carryStateData s)"] by (simp_all add: reachable_face)
next
  assume a: "reachable s \<and> carryState s = SNAPPING \<and> \<not> watchdogFires world s \<and>
    eid2obj world (activeObject (carryStateData s)) \<noteq> None \<and>
    carry_change_snap_face userinput \<and> \<not> carry_toggle_snap userinput \<and>
    \<not> carry_drop userinput \<and> \<not> exitedPointerlock s"
  then have "snapFace (carryStateData
      (sys_of (carrySystem D world userinput characterController camera s))) =
      (snapFace (carryStateData s) + 1) smod 6"
    by (intro carrySystem_pressed) simp_all
  moreover from a have "- 1 \<le> snapFace (carryStateData s) \<and> snapFace (carryStateData s) \<le> 5"
    by (simp add: reachable_face)
  ultimately show "0 \<le> snapFace (carryStateData
             (sys_of (carrySystem D world userinput characterController camera s)))"
    and "snapFace (carryStateData
             (sys_of (carrySystem D world userinput characterController camera s))) \<le> 5"
    using cycle_in_range [of "snapFace (carryStateData s)"] by simp_all
next
  assume a: "reachable s \<and> snapFace (carryStateData s) \<noteq> AUTO \<and>
    snapFace (carryStateData
      (sys_of (carrySystem D world userinput characterController camera s))) = AUTO"
  then have "- 1 \<le> snapFace (carryStateData s) \<and> snapFace (carryStateData s) \<le> 5"
    by (simp add: reachable_face)
  with a cycle_in_range [of "snapFace (carryStateData s)"]
    carrySystem_face [of D world userinput characterController camera s]
  show "carry_toggle_snap userinput"
    and "carryState (sys_of (carrySystem D world userinput characterController camera s)) = SNAPPING"
    by (auto simp: AUTO_def)
qed (simp_all add: onPointerlockchange_def)

text \<open>A press in the snapping state of entity 2, and the return to AUTO through the snap fast path.\<close>

theorem snapFace_range_witness:
  "reachable (sys_of snapping2) \<and> carryState (sys_of snapping2) = SNAPPING \<and>
   \<not> watchdogFires (world_of snapping2) (sys_of snapping2) \<and>
   0 \<le> snapFace (carryStateData (sys_of pressed2)) \<and>
   snapFace (carryStateData (sys_of pressed2)) \<le> 5 \<and>
   reachable (sys_of pressed2) \<and> snapFace (carryStateData (sys_of pressed2)) \<noteq> AUTO \<and>
   snapFace (carryStateData (sys_of (carrySystem plainDeps removedWorld
     (noInput\<lparr>carry_toggle_snap := True\<rparr>) sampleController noHit (sys_of pressed2)))) = AUTO \<and>
   carryState (sys_of (carrySystem plainDeps removedWorld
     (noInput\<lparr>carry_toggle_snap := True\<rparr>) sampleController noHit (sys_of pressed2))) = SNAPPING"
proof -
  let ?press = "noInput\<lparr>carry_change_snap_face := True\<rparr>"
  let ?toggle = "noInput\<lparr>carry_toggle_snap := True\<rparr>"
  have a: "reachable (sys_of snapping2) \<and> carryState (sys_of snapping2) = SNAPPING \<and>
      \<not> watchdogFires (world_of snapping2) (sys_of snapping2) \<and>
      eid2obj (world_of snapping2) (activeObject (carryStateData (sys_of snapping2))) \<noteq> None \<and>
      carry_change_snap_face ?press \<and> \<not> carry_toggle_snap ?press \<and>
      \<not> carry_drop ?press \<and> \<not> exitedPointerlock (sys_of snapping2)"
    by (simp add: snapping2_reachable sample_quiet noInput_def)
  from snapFace_range [of "sys_of snapping2" "world_of snapping2" ?press plainDeps
      sampleController noHit] a
  have first: "0 \<le> snapFace (carryStateData (sys_of pressed2)) \<and>
      snapFace (carryStateData (sys_of pressed2)) \<le> 5"
    unfolding pressed2_def by blast
  have fires: "watchdogFires removedWorld (sys_of pressed2)"
    by (simp add: watchdogFires_def entityExists_def)
  have obj: "eid2obj (removedWorld\<lparr>selection := {}\<rparr>) 7 = Some unitCube"
    by simp
  have toggle: "carry_toggle_snap ?toggle"
    by simp
  have b: "reachable (sys_of pressed2) \<and> snapFace (carryStateData (sys_of pressed2)) \<noteq> AUTO \<and>
      snapFace (carryStateData (sys_of (carrySystem plainDeps removedWorld ?toggle
        sampleController noHit (sys_of pressed2)))) = AUTO"
    by (simp add: pressed2_reachable AUTO_def carrySystem_fired [OF fires]
        idleTick_fastPath [OF removedWorld_held toggle obj])
  from snapFace_range [of "sys_of pressed2" removedWorld ?toggle plainDeps sampleController noHit] b
  have "carryState (sys_of (carrySystem plainDeps removedWorld ?toggle
        sampleController noHit (sys_of pressed2))) = SNAPPING"
    by blast
  with a first b show ?thesis
    by blast
qed

subsection \<open>The physics update of carryObject\<close>




end
